theory Spec2Isabelle
  imports Main
begin

section \<open>Errors raised by the server code\<close>

text \<open>
  The value of \<open>error.meta?.target\<close> of a Prisma request error: absent, a single string
  or an array of field names.
\<close>

datatype meta_target = NoTarget | TargetString string | TargetArray "string list"

text \<open>
  The exceptions the modelled code raises or receives: \<open>HttpError(status, message)\<close> of
  \<open>lib/httpError\<close>, \<open>Prisma.PrismaClientKnownRequestError\<close> with its \<open>code\<close> and
  \<open>meta.target\<close>, and any other exception (a payment-provider failure, a lost connection).
\<close>

datatype error =
    HttpError int string
  | PrismaClientKnownRequestError string meta_target
  | OtherError string

section \<open>lib/orders.ts\<close>

definition ORDER_CODE_MAX_ATTEMPTS :: nat where
  "ORDER_CODE_MAX_ATTEMPTS = 5"

fun isOrderCodeConflict :: "error \<Rightarrow> bool" where
  "isOrderCodeConflict (PrismaClientKnownRequestError code target) =
     (if code \<noteq> ''P2002'' then False
      else (case target of
              TargetArray fields \<Rightarrow> ''orderCode'' \<in> set fields
            | _ \<Rightarrow> False))"
| "isOrderCodeConflict _ = False"

text \<open>
  \<open>computeShipping\<close>: prices and quantities are integer columns, so the subtotal is an
  integer; it is modelled as an unbounded \<open>int\<close>.
\<close>

definition computeShipping :: "int \<Rightarrow> int" where
  "computeShipping subtotal = (if subtotal > 250 \<or> subtotal = 0 then 0 else 12)"

text \<open>
  \<open>createOrderWithRetry(tx, data)\<close>. The transaction client's \<open>order.create\<close> is the
  parameter \<open>create\<close>: it takes the order code and the remaining data and runs on the
  transaction's state \<open>'s\<close>, either returning the created order or raising. The random
  \<open>createOrderCode()\<close> is the parameter \<open>codes\<close>: \<open>codes i\<close> is the code drawn in the
  iteration with \<open>attempt = i\<close>. \<open>lastError\<close> is \<open>None\<close> while it is \<open>undefined\<close>.
\<close>

function createOrderLoop ::
  "(string \<Rightarrow> 'd \<Rightarrow> 's \<Rightarrow> (error + 'o) \<times> 's) \<Rightarrow> (nat \<Rightarrow> string) \<Rightarrow> 'd \<Rightarrow>
   nat \<Rightarrow> error option \<Rightarrow> 's \<Rightarrow> (error + 'o) \<times> 's" where
  "createOrderLoop create codes data attempt lastError s =
     (if attempt < ORDER_CODE_MAX_ATTEMPTS then
        (case create (codes attempt) data s of
           (Inr order, s') \<Rightarrow> (Inr order, s')
         | (Inl err, s') \<Rightarrow>
             if isOrderCodeConflict err \<and> attempt < ORDER_CODE_MAX_ATTEMPTS - 1
             then createOrderLoop create codes data (attempt + 1) (Some err) s'
             else (Inl err, s'))
      else
        (case lastError of
           Some err \<Rightarrow> (Inl err, s)
         | None \<Rightarrow> (Inl (HttpError 500 ''Unable to generate a unique order code.''), s)))"
  by pat_completeness auto
termination
  by (relation "measure (\<lambda>(create, codes, data, attempt, lastError, s).
        ORDER_CODE_MAX_ATTEMPTS - attempt)") auto

definition createOrderWithRetry ::
  "(string \<Rightarrow> 'd \<Rightarrow> 's \<Rightarrow> (error + 'o) \<times> 's) \<Rightarrow> (nat \<Rightarrow> string) \<Rightarrow> 'd \<Rightarrow> 's \<Rightarrow>
   (error + 'o) \<times> 's" where
  "createOrderWithRetry create codes data s = createOrderLoop create codes data 0 None s"

text \<open>
  A scripted transaction client, as a test double for \<open>tx.order.create\<close>: its \<open>i\<close>-th
  call has the outcome \<open>outcomes i\<close>, and its state is the list of the order codes it was
  called with, so that the number of generation attempts can be read off.
\<close>

definition scriptedCreate ::
  "(nat \<Rightarrow> error + 'o) \<Rightarrow> string \<Rightarrow> 'd \<Rightarrow> string list \<Rightarrow> (error + 'o) \<times> string list" where
  "scriptedCreate outcomes code data calls = (outcomes (length calls), calls @ [code])"

definition alwaysConflict :: "nat \<Rightarrow> error + unit" where
  "alwaysConflict i =
     Inl (PrismaClientKnownRequestError ''P2002'' (TargetArray [''orderCode'']))"

text \<open>
  Three scripts: a conflict at every call (above); two conflicts and then a free code; two
  conflicts and then a different uniqueness violation.
\<close>

definition twoConflictsThenFree :: "nat \<Rightarrow> error + unit" where
  "twoConflictsThenFree i =
     (if i < 2 then Inl (PrismaClientKnownRequestError ''P2002'' (TargetArray [''orderCode'']))
      else Inr ())"

definition conflictThenOther :: "nat \<Rightarrow> error + unit" where
  "conflictThenOther i =
     (if i < 2 then Inl (PrismaClientKnownRequestError ''P2002'' (TargetArray [''orderCode'']))
      else Inl (PrismaClientKnownRequestError ''P2002'' (TargetArray [''stripeSessionId''])))"

definition sampleCodes :: "nat \<Rightarrow> string" where
  "sampleCodes i = ''EC-'' @ replicate (Suc i) (CHR ''A'')"

section \<open>Data model\<close>

datatype OrderStatus = PENDING_PAYMENT | PLACED | FULFILLED | CANCELLED

record Product =
  p_id :: int
  p_slug :: string
  p_name :: string
  p_price :: int
  p_stock :: int

record CartItem =
  ci_userId :: string
  ci_productId :: int
  ci_quantity :: int

record OrderLine =
  ol_productId :: int
  ol_productName :: string
  ol_quantity :: int
  ol_unitPrice :: int

text \<open>The checkout payload accepted by \<open>checkoutSchema\<close>, and the snapshot kept on the order.\<close>

record ShippingInfo =
  sh_fullName :: string
  sh_email :: string
  sh_address :: string
  sh_city :: string
  sh_zip :: string
  sh_country :: string

record Order =
  o_id :: nat
  o_userId :: string
  o_orderCode :: string
  o_status :: OrderStatus
  o_stripeSessionId :: "string option"
  o_subtotal :: int
  o_shipping :: int
  o_total :: int
  o_shippingTo :: ShippingInfo
  o_lines :: "OrderLine list"

text \<open>
  The argument of \<open>tx.order.create\<close> without the order code
  (\<open>Omit<Prisma.OrderCreateInput, "orderCode">\<close>); \<open>d_status\<close> is \<open>None\<close> when the caller
  passes no status.
\<close>

record OrderData =
  d_userId :: string
  d_status :: "OrderStatus option"
  d_stripeSessionId :: "string option"
  d_subtotal :: int
  d_shipping :: int
  d_total :: int
  d_shippingTo :: ShippingInfo
  d_lines :: "OrderLine list"

text \<open>
  The tables the modelled code reads and writes. Order lines are kept with their order
  (an order owns its lines); the display attributes of a product (tagline, images,
  category, rating) are read by none of the modelled operations and are left out.
\<close>

record db =
  products :: "Product list"
  cartItems :: "CartItem list"
  orders :: "Order list"

section \<open>The Prisma client calls used by the code\<close>

definition order_findUnique_stripeSessionId :: "string \<Rightarrow> db \<Rightarrow> Order option" where
  "order_findUnique_stripeSessionId sessionId d =
     find (\<lambda>ord. o_stripeSessionId ord = Some sessionId) (orders d)"

definition order_findUnique_id :: "nat \<Rightarrow> db \<Rightarrow> Order option" where
  "order_findUnique_id i d = find (\<lambda>ord. o_id ord = i) (orders d)"

text \<open>
  \<open>order.updateMany({ where, data: { status } })\<close>: every matching row is updated, and the
  number of matching rows is \<open>count\<close>.
\<close>

definition order_updateMany_status ::
  "(Order \<Rightarrow> bool) \<Rightarrow> OrderStatus \<Rightarrow> db \<Rightarrow> nat \<times> db" where
  "order_updateMany_status wh st d =
     (length (filter wh (orders d)),
      d\<lparr>orders := map (\<lambda>ord. if wh ord then ord\<lparr>o_status := st\<rparr> else ord) (orders d)\<rparr>)"

text \<open>
  \<open>product.updateMany({ where: { id, stock: { gte: quantity } },
  data: { stock: { decrement: quantity } } })\<close>, the conditional decrement of both
  checkout paths.
\<close>

definition product_updateMany_decrement :: "int \<Rightarrow> int \<Rightarrow> db \<Rightarrow> nat \<times> db" where
  "product_updateMany_decrement productId quantity d =
     (length (filter (\<lambda>p. p_id p = productId \<and> p_stock p \<ge> quantity) (products d)),
      d\<lparr>products :=
          map (\<lambda>p. if p_id p = productId \<and> p_stock p \<ge> quantity
                    then p\<lparr>p_stock := p_stock p - quantity\<rparr> else p) (products d)\<rparr>)"

definition cartItem_deleteMany :: "(CartItem \<Rightarrow> bool) \<Rightarrow> db \<Rightarrow> db" where
  "cartItem_deleteMany wh d = d\<lparr>cartItems := filter (\<lambda>c. \<not> wh c) (cartItems d)\<rparr>"

text \<open>
  \<open>cartItem.findMany({ where: { userId }, include: { product: true } })\<close>: the user's cart
  items, each with the product it references (a cart item references an existing product
  by its foreign key).
\<close>

definition cartItem_findMany_product :: "string \<Rightarrow> db \<Rightarrow> (CartItem \<times> Product) list" where
  "cartItem_findMany_product userId d =
     List.map_filter
       (\<lambda>c. map_option (Pair c) (find (\<lambda>p. p_id p = ci_productId c) (products d)))
       (filter (\<lambda>c. ci_userId c = userId) (cartItems d))"

definition orderLine_count_productId :: "int \<Rightarrow> db \<Rightarrow> nat" where
  "orderLine_count_productId productId d =
     length (filter (\<lambda>l. ol_productId l = productId) (concat (map o_lines (orders d))))"

text \<open>
  Modelled from the spec: the Prisma schema is not among the sources, so \<open>order.create\<close>
  follows the spec's data model. \<open>orderCode\<close> and the payment-session reference each
  carry a uniqueness constraint, whose violation raises \<open>P2002\<close> naming the field; the new
  order gets a fresh identity; an order created without a status is \<open>PLACED\<close> (the
  immediate checkout passes none and its order is placed). A failed insert changes nothing.
\<close>

definition order_create :: "string \<Rightarrow> OrderData \<Rightarrow> db \<Rightarrow> (error + Order) \<times> db" where
  "order_create orderCode data d =
     (if orderCode \<in> set (map o_orderCode (orders d)) then
        (Inl (PrismaClientKnownRequestError ''P2002'' (TargetArray [''orderCode''])), d)
      else if d_stripeSessionId data \<noteq> None \<and>
              d_stripeSessionId data \<in> set (map o_stripeSessionId (orders d)) then
        (Inl (PrismaClientKnownRequestError ''P2002'' (TargetArray [''stripeSessionId''])), d)
      else
        (let order = \<lparr>
               o_id = Suc (fold max (map o_id (orders d)) 0),
               o_userId = d_userId data,
               o_orderCode = orderCode,
               o_status = (case d_status data of None \<Rightarrow> PLACED | Some st \<Rightarrow> st),
               o_stripeSessionId = d_stripeSessionId data,
               o_subtotal = d_subtotal data,
               o_shipping = d_shipping data,
               o_total = d_total data,
               o_shippingTo = d_shippingTo data,
               o_lines = d_lines data\<rparr>
         in (Inr order, d\<lparr>orders := orders d @ [order]\<rparr>)))"

text \<open>
  \<open>prisma.$transaction(fn)\<close>: when the callback raises, the writes it made are rolled back.
\<close>

definition transaction :: "(db \<Rightarrow> (error + 'a) \<times> db) \<Rightarrow> db \<Rightarrow> (error + 'a) \<times> db" where
  "transaction body d =
     (case body d of
        (Inl err, d') \<Rightarrow> (Inl err, d)
      | (Inr v, d') \<Rightarrow> (Inr v, d'))"

section \<open>routes/stripe.ts: finalizeStripeOrder\<close>

definition noOrderForSession :: error where
  "noOrderForSession = HttpError 404 ''No order found for this Stripe session.''"

text \<open>JavaScript truthiness of an optional string: \<open>undefined\<close> and \<open>""\<close> are falsy.\<close>

definition truthy :: "string option \<Rightarrow> bool" where
  "truthy s = (case s of None \<Rightarrow> False | Some v \<Rightarrow> v \<noteq> [])"

text \<open>
  The first part of the transaction callback: the lookup by session, the owner check and
  the short-circuit on an order that is already placed, fulfilled or cancelled. It only
  reads. \<open>ReturnExisting\<close> is \<open>return existingOrder\<close>; \<open>ClaimTransition\<close> is falling
  through to the conditional update.
\<close>

datatype read_outcome = ReturnExisting Order | ClaimTransition Order

definition finalizeRead :: "string \<Rightarrow> string option \<Rightarrow> db \<Rightarrow> error + read_outcome" where
  "finalizeRead sessionId userId d =
     (case order_findUnique_stripeSessionId sessionId d of
        None \<Rightarrow> Inl noOrderForSession
      | Some existingOrder \<Rightarrow>
          if truthy userId \<and> Some (o_userId existingOrder) \<noteq> userId then Inl noOrderForSession
          else if o_status existingOrder = PLACED \<or> o_status existingOrder = FULFILLED
          then Inr (ReturnExisting existingOrder)
          else if o_status existingOrder = CANCELLED then Inr (ReturnExisting existingOrder)
          else Inr (ClaimTransition existingOrder))"

text \<open>The loop over \<open>existingOrder.lines\<close>: one conditional decrement per line.\<close>

fun reserveLines :: "OrderLine list \<Rightarrow> db \<Rightarrow> error + db" where
  "reserveLines [] d = Inr d"
| "reserveLines (line # rest) d =
     (case product_updateMany_decrement (ol_productId line) (ol_quantity line) d of
        (count, d') \<Rightarrow>
          if count = 0 then Inl (HttpError 409 (ol_productName line @ '' is out of stock.''))
          else reserveLines rest d')"

text \<open>
  The second part of the callback: the conditional update that claims the transition, and
  what follows it. The state returned with an error is the one the transaction discards.
\<close>

definition claimWhere :: "Order \<Rightarrow> Order \<Rightarrow> bool" where
  "claimWhere existingOrder ord = (o_id ord = o_id existingOrder \<and> o_status ord = PENDING_PAYMENT)"

definition claimTransition :: "Order \<Rightarrow> db \<Rightarrow> (error + Order) \<times> db" where
  "claimTransition existingOrder d =
     (case order_updateMany_status (claimWhere existingOrder) PLACED d of
        (count, d1) \<Rightarrow>
          if count = 0 then
            (case order_findUnique_id (o_id existingOrder) d1 of
               None \<Rightarrow> (Inl noOrderForSession, d1)
             | Some latest \<Rightarrow> (Inr latest, d1))
          else
            (case reserveLines (o_lines existingOrder) d1 of
               Inl err \<Rightarrow> (Inl err, d1)
             | Inr d2 \<Rightarrow>
                 (let d3 = cartItem_deleteMany (\<lambda>c. ci_userId c = o_userId existingOrder) d2
                  in case order_findUnique_id (o_id existingOrder) d3 of
                       None \<Rightarrow> (Inl noOrderForSession, d3)
                     | Some finalized \<Rightarrow> (Inr finalized, d3))))"

definition finalizeStripeOrder ::
  "string \<Rightarrow> string option \<Rightarrow> db \<Rightarrow> (error + Order) \<times> db" where
  "finalizeStripeOrder sessionId userId =
     transaction (\<lambda>d.
       case finalizeRead sessionId userId d of
         Inl err \<Rightarrow> (Inl err, d)
       | Inr (ReturnExisting existingOrder) \<Rightarrow> (Inr existingOrder, d)
       | Inr (ClaimTransition existingOrder) \<Rightarrow> claimTransition existingOrder d)"

subsection \<open>Invocations that overlap\<close>

text \<open>
  Several invocations of \<open>finalizeStripeOrder\<close> on one store. An invocation has two
  statements that can be separated by the statements of another invocation: the read of
  the order at its start, and the conditional update. From its conditional update to its
  commit or rollback an invocation holds the order's row, so this part is one step on the
  committed state. \<open>Called userId\<close> has not read yet, \<open>Claiming existingOrder\<close> has read
  a pending order and is about to run the conditional update, \<open>Returned r\<close> has finished.
\<close>

datatype invocation = Called "string option" | Claiming Order | Returned "error + Order"

fun stepInvocation :: "string \<Rightarrow> invocation \<Rightarrow> db \<Rightarrow> invocation \<times> db" where
  "stepInvocation sessionId (Called userId) d =
     (case finalizeRead sessionId userId d of
        Inl err \<Rightarrow> (Returned (Inl err), d)
      | Inr (ReturnExisting existingOrder) \<Rightarrow> (Returned (Inr existingOrder), d)
      | Inr (ClaimTransition existingOrder) \<Rightarrow> (Claiming existingOrder, d))"
| "stepInvocation sessionId (Claiming existingOrder) d =
     (case transaction (claimTransition existingOrder) d of (r, d') \<Rightarrow> (Returned r, d'))"
| "stepInvocation sessionId (Returned r) d = (Returned r, d)"

text \<open>
  A schedule names, step by step, the invocation that runs next. \<open>runSchedule\<close> is the
  resulting configuration; \<open>stateChanges\<close> counts the steps that changed the store.
\<close>

fun runSchedule ::
  "string \<Rightarrow> nat list \<Rightarrow> invocation list \<times> db \<Rightarrow> invocation list \<times> db" where
  "runSchedule sessionId [] c = c"
| "runSchedule sessionId (i # sched) (invs, d) =
     (if i < length invs then
        (case stepInvocation sessionId (invs ! i) d of
           (inv', d') \<Rightarrow> runSchedule sessionId sched (invs[i := inv'], d'))
      else runSchedule sessionId sched (invs, d))"

fun stateChanges :: "string \<Rightarrow> nat list \<Rightarrow> invocation list \<times> db \<Rightarrow> nat" where
  "stateChanges sessionId [] c = 0"
| "stateChanges sessionId (i # sched) (invs, d) =
     (if i < length invs then
        (case stepInvocation sessionId (invs ! i) d of
           (inv', d') \<Rightarrow>
             (if d' = d then 0 else 1) + stateChanges sessionId sched (invs[i := inv'], d'))
      else stateChanges sessionId sched (invs, d))"

text \<open>
  Two properties of a configuration, used to follow a schedule. In a \<open>fresh\<close>
  configuration every invocation that is about to claim holds the session's order as it is
  stored, still pending. In a \<open>settled\<close> configuration the session's order is no longer
  pending and no stored order matches the condition of a claim that is still to come.
  \<open>claimed\<close> is the effect of a claim on one stored order.
\<close>

definition fresh :: "string \<Rightarrow> invocation list \<Rightarrow> db \<Rightarrow> bool" where
  "fresh sessionId invs d =
     list_all
       (\<lambda>cur. case cur of
                 Claiming ex \<Rightarrow>
                   order_findUnique_stripeSessionId sessionId d = Some ex \<and>
                   o_status ex = PENDING_PAYMENT
               | _ \<Rightarrow> True) invs"

definition settled :: "string \<Rightarrow> invocation list \<Rightarrow> db \<Rightarrow> bool" where
  "settled sessionId invs d =
     (list_all
        (\<lambda>cur. case cur of
                  Claiming ex \<Rightarrow> list_all (\<lambda>ord. \<not> claimWhere ex ord) (orders d)
                | _ \<Rightarrow> True) invs \<and>
      (case order_findUnique_stripeSessionId sessionId d of
         None \<Rightarrow> True
       | Some ord \<Rightarrow> o_status ord \<noteq> PENDING_PAYMENT))"

definition claimed :: "Order \<Rightarrow> Order \<Rightarrow> Order" where
  "claimed ex ord = (if claimWhere ex ord then ord\<lparr>o_status := PLACED\<rparr> else ord)"

section \<open>routes/stripe.ts: compensation and the webhook\<close>

text \<open>
  \<open>session.payment_intent\<close> is \<open>null\<close>, the identifier of a payment intent, or an expanded
  payment-intent object with its \<open>id\<close>.
\<close>

datatype payment_intent = NoPaymentIntent | PaymentIntentId string | PaymentIntentObject string

record StripeSession =
  s_id :: string
  s_mode :: string
  s_payment_intent :: payment_intent
  s_url :: "string option"

record StripeEvent =
  ev_type :: string
  ev_session :: StripeSession

record RefundRequest =
  r_payment_intent :: string
  r_reason :: string
  r_idempotencyKey :: string

record LineItem =
  li_quantity :: int
  li_currency :: string
  li_unit_amount :: int
  li_name :: string

text \<open>
  The payment provider is external: its answers are parameters. \<open>constructEvent payload
  signature secret\<close> is \<open>None\<close> when the provider's library raises;
  \<open>refunds_create request\<close> is \<open>Some err\<close> when the call raises; \<open>sessions_create
  customer_email line_items\<close> returns the session or raises.
\<close>

record Stripe =
  constructEvent :: "string \<Rightarrow> string \<Rightarrow> string \<Rightarrow> StripeEvent option"
  refunds_create :: "RefundRequest \<Rightarrow> error option"
  sessions_create :: "string \<Rightarrow> LineItem list \<Rightarrow> error + StripeSession"

text \<open>\<open>lib/env\<close>: an unset secret is the empty string.\<close>

record Env =
  stripeSecretKey :: string
  stripeWebhookSecret :: string

datatype AuditValue = AString string | ANumber int | ABoolean bool | AUndefined

text \<open>
  What the request handlers act on: the store, the refund calls made to the provider so
  far, and the audit records written so far (event name and payload; the time stamp of a
  record is left out).
\<close>

record world =
  w_db :: db
  w_refunds :: "RefundRequest list"
  w_audit :: "(string \<times> (string \<times> AuditValue) list) list"

definition auditLog :: "string \<Rightarrow> (string \<times> AuditValue) list \<Rightarrow> world \<Rightarrow> world" where
  "auditLog event payload w = w\<lparr>w_audit := w_audit w @ [(event, payload)]\<rparr>"

datatype Body = Received | OkTrue | Message string

datatype Response = Response nat Body

definition getStripeClient :: "Env \<Rightarrow> error + unit" where
  "getStripeClient env =
     (if stripeSecretKey env = [] then
        Inl (HttpError 500 ''Stripe is not configured on the server.'')
      else Inr ())"

definition getWebhookEvent ::
  "Env \<Rightarrow> Stripe \<Rightarrow> string \<Rightarrow> string option \<Rightarrow> error + StripeEvent" where
  "getWebhookEvent env stripe payload signature =
     (if \<not> truthy signature then Inl (HttpError 400 ''Missing Stripe signature header.'')
      else if stripeWebhookSecret env = [] then
        Inl (HttpError 500 ''Stripe webhook secret is not configured on the server.'')
      else
        (case constructEvent stripe payload (the signature) (stripeWebhookSecret env) of
           None \<Rightarrow> Inl (HttpError 400 ''Invalid Stripe webhook signature.'')
         | Some event \<Rightarrow> Inr event))"

definition paymentIntentOf :: "StripeSession \<Rightarrow> string option" where
  "paymentIntentOf session =
     (case s_payment_intent session of
        NoPaymentIntent \<Rightarrow> None
      | PaymentIntentId pi \<Rightarrow> Some pi
      | PaymentIntentObject pi \<Rightarrow> Some pi)"

definition refundRequest :: "StripeSession \<Rightarrow> string \<Rightarrow> RefundRequest" where
  "refundRequest session paymentIntent =
     \<lparr>r_payment_intent = paymentIntent,
      r_reason = ''requested_by_customer'',
      r_idempotencyKey = ''earthco-refund-'' @ s_id session\<rparr>"

definition cancelWhere :: "StripeSession \<Rightarrow> Order \<Rightarrow> bool" where
  "cancelWhere session ord =
     (o_stripeSessionId ord = Some (s_id session) \<and> o_status ord = PENDING_PAYMENT)"

definition optional :: "('a \<Rightarrow> AuditValue) \<Rightarrow> 'a option \<Rightarrow> AuditValue" where
  "optional f x = (case x of None \<Rightarrow> AUndefined | Some v \<Rightarrow> f v)"

definition compensateStripeFulfillmentFailure ::
  "Stripe \<Rightarrow> StripeSession \<Rightarrow> world \<Rightarrow> (error + unit) \<times> world" where
  "compensateStripeFulfillmentFailure stripe session w =
     (let paymentIntent = paymentIntentOf session;
          (refundError, w1) =
            (if truthy paymentIntent then
               (refunds_create stripe (refundRequest session (the paymentIntent)),
                w\<lparr>w_refunds := w_refunds w @ [refundRequest session (the paymentIntent)]\<rparr>)
             else (None, w))
      in case refundError of
           Some err \<Rightarrow> (Inl err, w1)
         | None \<Rightarrow>
             (let cancelledOrder = order_findUnique_stripeSessionId (s_id session) (w_db w1);
                  (count, d2) = order_updateMany_status (cancelWhere session) CANCELLED (w_db w1)
              in (Inr (),
                  auditLog ''stripe.order_cancelled_after_failed_fulfillment''
                    [(''sessionId'', AString (s_id session)),
                     (''orderId'', optional (\<lambda>ord. ANumber (int (o_id ord))) cancelledOrder),
                     (''userId'', optional (\<lambda>ord. AString (o_userId ord)) cancelledOrder),
                     (''orderCode'', optional (\<lambda>ord. AString (o_orderCode ord)) cancelledOrder),
                     (''hadPaymentIntent'', ABoolean (truthy paymentIntent))]
                    (w1\<lparr>w_db := d2\<rparr>))))"

definition statusName :: "OrderStatus \<Rightarrow> string" where
  "statusName st =
     (case st of PENDING_PAYMENT \<Rightarrow> ''PENDING_PAYMENT'' | PLACED \<Rightarrow> ''PLACED''
      | FULFILLED \<Rightarrow> ''FULFILLED'' | CANCELLED \<Rightarrow> ''CANCELLED'')"

text \<open>
  The handler of \<open>POST /webhook\<close>, given the raw body and the signature header. \<open>Inl err\<close>
  is the error handed on (\<open>next(error)\<close>, or raised by \<open>getStripeClient\<close>); the writes of
  a failed finalization are already rolled back by its transaction.
\<close>

definition webhook ::
  "Env \<Rightarrow> Stripe \<Rightarrow> string \<Rightarrow> string option \<Rightarrow> world \<Rightarrow> (error + Response) \<times> world" where
  "webhook env stripe bodyBuffer stripeSignature w =
     (case getStripeClient env of
        Inl err \<Rightarrow> (Inl err, w)
      | Inr _ \<Rightarrow>
     (case getWebhookEvent env stripe bodyBuffer stripeSignature of
        Inl err \<Rightarrow> (Inl err, w)
      | Inr event \<Rightarrow>
          if ev_type event = ''checkout.session.completed'' \<or>
             ev_type event = ''checkout.session.async_payment_succeeded''
          then
            (let session = ev_session event in
             if s_mode session = ''payment'' then
               (case finalizeStripeOrder (s_id session) None (w_db w) of
                  (Inr finalized, d') \<Rightarrow>
                    (Inr (Response 200 Received),
                     auditLog ''stripe.webhook_order_finalized''
                       [(''eventType'', AString (ev_type event)),
                        (''sessionId'', AString (s_id session)),
                        (''orderId'', ANumber (int (o_id finalized))),
                        (''userId'', AString (o_userId finalized)),
                        (''orderCode'', AString (o_orderCode finalized)),
                        (''status'', AString (statusName (o_status finalized)))]
                       (w\<lparr>w_db := d'\<rparr>))
                | (Inl (HttpError status message), d') \<Rightarrow>
                    if status = 400 \<or> status = 409 then
                      (case compensateStripeFulfillmentFailure stripe session (w\<lparr>w_db := d'\<rparr>) of
                         (Inl err, w') \<Rightarrow> (Inl err, w')
                       | (Inr _, w') \<Rightarrow>
                           (Inr (Response 200 Received),
                            auditLog ''stripe.webhook_compensated''
                              [(''eventType'', AString (ev_type event)),
                               (''sessionId'', AString (s_id session)),
                               (''reason'', AString message)] w'))
                    else (Inl (HttpError status message), w\<lparr>w_db := d'\<rparr>)
                | (Inl err, d') \<Rightarrow> (Inl err, w\<lparr>w_db := d'\<rparr>))
             else (Inr (Response 200 Received), w))
          else (Inr (Response 200 Received), w)))"

section \<open>The two checkout paths\<close>

text \<open>
  \<open>String.prototype.trim\<close> on the payload's fields, for strings of ASCII characters: it
  removes the white space at both ends.
\<close>

definition isSpace :: "char \<Rightarrow> bool" where
  "isSpace c = (c \<in> {CHR '' '', CHR 0x09, CHR 0x0A, CHR 0x0B, CHR 0x0C, CHR 0x0D})"

definition trim :: "string \<Rightarrow> string" where
  "trim s = rev (dropWhile isSpace (rev (dropWhile isSpace s)))"

definition trimmed :: "ShippingInfo \<Rightarrow> ShippingInfo" where
  "trimmed parsed =
     \<lparr>sh_fullName = trim (sh_fullName parsed),
      sh_email = trim (sh_email parsed),
      sh_address = trim (sh_address parsed),
      sh_city = trim (sh_city parsed),
      sh_zip = trim (sh_zip parsed),
      sh_country = trim (sh_country parsed)\<rparr>"

text \<open>The pre-check of each cart item's quantity against the stock that was read.\<close>

fun checkStock :: "(CartItem \<times> Product) list \<Rightarrow> error option" where
  "checkStock [] = None"
| "checkStock ((item, product) # rest) =
     (if p_stock product < ci_quantity item
      then Some (HttpError 400 (p_name product @ '' has insufficient stock.''))
      else checkStock rest)"

definition subtotalOf :: "(CartItem \<times> Product) list \<Rightarrow> int" where
  "subtotalOf cart =
     foldl (\<lambda>sum (item, product). sum + p_price product * ci_quantity item) 0 cart"

definition linesOf :: "(CartItem \<times> Product) list \<Rightarrow> OrderLine list" where
  "linesOf cart =
     map (\<lambda>(item, product).
            \<lparr>ol_productId = ci_productId item,
             ol_productName = p_name product,
             ol_quantity = ci_quantity item,
             ol_unitPrice = p_price product\<rparr>) cart"

text \<open>The decrement loop of the immediate checkout, over the cart items.\<close>

fun reserveItems :: "(CartItem \<times> Product) list \<Rightarrow> db \<Rightarrow> error + db" where
  "reserveItems [] d = Inr d"
| "reserveItems ((item, product) # rest) d =
     (case product_updateMany_decrement (ci_productId item) (ci_quantity item) d of
        (count, d') \<Rightarrow>
          if count = 0 then Inl (HttpError 400 (p_name product @ '' is out of stock.''))
          else reserveItems rest d')"

text \<open>
  \<open>POST /api/orders/checkout\<close>, for an authenticated user and a payload that passed
  \<open>checkoutSchema\<close>: the transaction of the handler. The handler answers 201 with the
  order, or hands the error on.
\<close>

definition checkout ::
  "(nat \<Rightarrow> string) \<Rightarrow> string \<Rightarrow> ShippingInfo \<Rightarrow> db \<Rightarrow> (error + Order) \<times> db" where
  "checkout codes userId parsed =
     transaction (\<lambda>d.
       let cart = cartItem_findMany_product userId d in
       if cart = [] then (Inl (HttpError 400 ''Your cart is empty.''), d)
       else
         (case checkStock cart of
            Some err \<Rightarrow> (Inl err, d)
          | None \<Rightarrow>
              (let subtotal = subtotalOf cart;
                   shipping = computeShipping subtotal;
                   total = subtotal + shipping
               in case reserveItems cart d of
                    Inl err \<Rightarrow> (Inl err, d)
                  | Inr d1 \<Rightarrow>
                      (case createOrderWithRetry order_create codes
                              \<lparr>d_userId = userId,
                               d_status = None,
                               d_stripeSessionId = None,
                               d_subtotal = subtotal,
                               d_shipping = shipping,
                               d_total = total,
                               d_shippingTo = trimmed parsed,
                               d_lines = linesOf cart\<rparr> d1 of
                         (Inl err, d2) \<Rightarrow> (Inl err, d2)
                       | (Inr createdOrder, d2) \<Rightarrow>
                           (Inr createdOrder,
                            cartItem_deleteMany (\<lambda>c. ci_userId c = userId) d2)))))"

definition lineItemsOf :: "(CartItem \<times> Product) list \<Rightarrow> int \<Rightarrow> LineItem list" where
  "lineItemsOf cart shipping =
     map (\<lambda>(item, product).
            \<lparr>li_quantity = ci_quantity item,
             li_currency = ''usd'',
             li_unit_amount = p_price product * 100,
             li_name = p_name product\<rparr>) cart
     @ (if shipping > 0
        then [\<lparr>li_quantity = 1, li_currency = ''usd'', li_unit_amount = shipping * 100,
               li_name = ''Shipping''\<rparr>]
        else [])"

text \<open>
  \<open>POST /checkout-session\<close>, for an authenticated user and a payload that passed
  \<open>checkoutSchema\<close>: the \<open>try\<close> block of the handler up to the creation of the pending
  order. Only the creation of the order runs in a transaction.
\<close>

definition checkoutSession ::
  "Env \<Rightarrow> Stripe \<Rightarrow> (nat \<Rightarrow> string) \<Rightarrow> string \<Rightarrow> ShippingInfo \<Rightarrow> db \<Rightarrow>
   (error + StripeSession \<times> Order) \<times> db" where
  "checkoutSession env stripe codes userId parsed d =
     (case getStripeClient env of
        Inl err \<Rightarrow> (Inl err, d)
      | Inr _ \<Rightarrow>
          (let cart = cartItem_findMany_product userId d in
           if cart = [] then (Inl (HttpError 400 ''Your cart is empty.''), d)
           else
             (case checkStock cart of
                Some err \<Rightarrow> (Inl err, d)
              | None \<Rightarrow>
                  (let subtotal = subtotalOf cart;
                       shipping = computeShipping subtotal;
                       total = subtotal + shipping
                   in case sessions_create stripe (sh_email parsed) (lineItemsOf cart shipping) of
                        Inl err \<Rightarrow> (Inl err, d)
                      | Inr session \<Rightarrow>
                          (case transaction
                                  (createOrderWithRetry order_create codes
                                     \<lparr>d_userId = userId,
                                      d_status = Some PENDING_PAYMENT,
                                      d_stripeSessionId = Some (s_id session),
                                      d_subtotal = subtotal,
                                      d_shipping = shipping,
                                      d_total = total,
                                      d_shippingTo = trimmed parsed,
                                      d_lines = linesOf cart\<rparr>) d of
                             (Inl err, d') \<Rightarrow> (Inl err, d')
                           | (Inr order, d') \<Rightarrow> (Inr (session, order), d'))))))"

section \<open>routes/admin.ts: DELETE /products/:id\<close>

definition product_findUnique_id :: "int \<Rightarrow> db \<Rightarrow> Product option" where
  "product_findUnique_id i d = find (\<lambda>p. p_id p = i) (products d)"

text \<open>\<open>product.delete({ where: { id } })\<close> raises \<open>P2025\<close> when there is no such row.\<close>

definition product_delete :: "int \<Rightarrow> db \<Rightarrow> (error + unit) \<times> db" where
  "product_delete i d =
     (if i \<in> set (map p_id (products d))
      then (Inr (), d\<lparr>products := filter (\<lambda>p. p_id p \<noteq> i) (products d)\<rparr>)
      else (Inl (PrismaClientKnownRequestError ''P2025'' NoTarget), d))"

text \<open>
  The handler, after the administrator check. \<open>idParam\<close> is \<open>Number(request.params.id)\<close>
  when that is an integer, and \<open>None\<close> otherwise. The handler runs no transaction: the
  cart items are deleted before the product is.
\<close>

definition deleteProduct ::
  "string option \<Rightarrow> string \<Rightarrow> int option \<Rightarrow> world \<Rightarrow> (error + Response) \<times> world" where
  "deleteProduct actorId ip idParam w =
     (case idParam of
        None \<Rightarrow> (Inr (Response 400 (Message ''Invalid product id.'')), w)
      | Some i \<Rightarrow>
          (let orderUsage = orderLine_count_productId i (w_db w) in
           if orderUsage > 0 then
             (Inr (Response 409
                (Message ''Cannot delete a product that already appears in past orders.'')),
              auditLog ''admin.product_delete_blocked_by_orders''
                [(''actorId'', optional AString actorId), (''ip'', AString ip),
                 (''productId'', ANumber i)] w)
           else
             (let existing = product_findUnique_id i (w_db w);
                  d1 = cartItem_deleteMany (\<lambda>c. ci_productId c = i) (w_db w)
              in case product_delete i d1 of
                   (Inr _, d2) \<Rightarrow>
                     (Inr (Response 200 OkTrue),
                      auditLog ''admin.product_deleted''
                        [(''actorId'', optional AString actorId), (''ip'', AString ip),
                         (''productId'', ANumber i),
                         (''slug'', optional (\<lambda>p. AString (p_slug p)) existing)]
                        (w\<lparr>w_db := d2\<rparr>))
                 | (Inl (PrismaClientKnownRequestError code target), d2) \<Rightarrow>
                     if code = ''P2025'' then
                       (Inr (Response 404 (Message ''Product not found.'')),
                        auditLog ''admin.product_delete_not_found''
                          [(''actorId'', optional AString actorId), (''ip'', AString ip),
                           (''productId'', ANumber i)] (w\<lparr>w_db := d2\<rparr>))
                     else (Inl (PrismaClientKnownRequestError code target), w\<lparr>w_db := d2\<rparr>)
                 | (Inl err, d2) \<Rightarrow> (Inl err, w\<lparr>w_db := d2\<rparr>))))"

section \<open>Reservation attempts\<close>

text \<open>
  A reservation attempt is one iteration of a decrement loop: of the immediate checkout,
  for a cart item with its product, or of the finalization, for an order line.
  \<open>runAttempts\<close> makes a sequence of attempts on the store, a failed attempt changing
  nothing; \<open>reservedQuantity\<close> adds up the quantities of the attempts on one product that
  succeed. \<open>stockOf\<close> reads a product's stock, and \<open>stocked\<close> says that no stock is
  negative.
\<close>

datatype attempt = CheckoutDecrement CartItem Product | FinalizeDecrement OrderLine

fun attemptProduct :: "attempt \<Rightarrow> int" where
  "attemptProduct (CheckoutDecrement item product) = ci_productId item"
| "attemptProduct (FinalizeDecrement line) = ol_productId line"

fun attemptQuantity :: "attempt \<Rightarrow> int" where
  "attemptQuantity (CheckoutDecrement item product) = ci_quantity item"
| "attemptQuantity (FinalizeDecrement line) = ol_quantity line"

fun outOfStock :: "attempt \<Rightarrow> error" where
  "outOfStock (CheckoutDecrement item product) =
     HttpError 400 (p_name product @ '' is out of stock.'')"
| "outOfStock (FinalizeDecrement line) =
     HttpError 409 (ol_productName line @ '' is out of stock.'')"

fun attemptDecrement :: "attempt \<Rightarrow> db \<Rightarrow> error + db" where
  "attemptDecrement (CheckoutDecrement item product) d = reserveItems [(item, product)] d"
| "attemptDecrement (FinalizeDecrement line) d = reserveLines [line] d"

fun runAttempts :: "attempt list \<Rightarrow> db \<Rightarrow> db" where
  "runAttempts [] d = d"
| "runAttempts (a # rest) d =
     (case attemptDecrement a d of
        Inl err \<Rightarrow> runAttempts rest d
      | Inr d' \<Rightarrow> runAttempts rest d')"

fun reservedQuantity :: "int \<Rightarrow> attempt list \<Rightarrow> db \<Rightarrow> int" where
  "reservedQuantity productId [] d = 0"
| "reservedQuantity productId (a # rest) d =
     (case attemptDecrement a d of
        Inl err \<Rightarrow> reservedQuantity productId rest d
      | Inr d' \<Rightarrow>
          (if attemptProduct a = productId then attemptQuantity a else 0)
          + reservedQuantity productId rest d')"

definition stockOf :: "int \<Rightarrow> db \<Rightarrow> int" where
  "stockOf productId d =
     (case product_findUnique_id productId d of Some p \<Rightarrow> p_stock p | None \<Rightarrow> 0)"

definition stocked :: "db \<Rightarrow> bool" where
  "stocked d = (\<forall>p \<in> set (products d). 0 \<le> p_stock p)"

section \<open>Sample data\<close>

text \<open>
  A small store in the shape of the repository's integration tests: two products, two
  carts, an order awaiting payment and an order already placed.
\<close>

definition sampleShipping :: ShippingInfo where
  "sampleShipping =
     \<lparr>sh_fullName = ''Test User'', sh_email = ''test@example.com'',
      sh_address = ''123 Test St'', sh_city = ''Portland'', sh_zip = ''97201'',
      sh_country = ''US''\<rparr>"

definition productA :: Product where
  "productA =
     \<lparr>p_id = 1, p_slug = ''test-stripe-idempotency'', p_name = ''Test Stripe Idempotency'',
      p_price = 120, p_stock = 3\<rparr>"

definition productB :: Product where
  "productB =
     \<lparr>p_id = 2, p_slug = ''test-checkout-race'', p_name = ''Test Checkout Race'',
      p_price = 100, p_stock = 1\<rparr>"

definition pendingOrder :: Order where
  "pendingOrder =
     \<lparr>o_id = 1, o_userId = ''user-a'', o_orderCode = ''EC-STRIPE-IDEMPOTENT-1'',
      o_status = PENDING_PAYMENT, o_stripeSessionId = Some ''cs_test_idempotent'',
      o_subtotal = 240, o_shipping = 12, o_total = 252, o_shippingTo = sampleShipping,
      o_lines = [\<lparr>ol_productId = 1, ol_productName = ''Test Stripe Idempotency'',
                  ol_quantity = 2, ol_unitPrice = 120\<rparr>]\<rparr>"

definition placedOrder :: Order where
  "placedOrder =
     \<lparr>o_id = 2, o_userId = ''user-b'', o_orderCode = ''EC-TEST-PLACED'',
      o_status = PLACED, o_stripeSessionId = Some ''cs_test_placed'',
      o_subtotal = 100, o_shipping = 12, o_total = 112, o_shippingTo = sampleShipping,
      o_lines = [\<lparr>ol_productId = 2, ol_productName = ''Test Checkout Race'',
                  ol_quantity = 1, ol_unitPrice = 100\<rparr>]\<rparr>"

definition sampleDb :: db where
  "sampleDb =
     \<lparr>products = [productA, productB],
      cartItems = [\<lparr>ci_userId = ''user-a'', ci_productId = 1, ci_quantity = 2\<rparr>,
                   \<lparr>ci_userId = ''user-b'', ci_productId = 2, ci_quantity = 1\<rparr>],
      orders = [pendingOrder, placedOrder]\<rparr>"

text \<open>
  The same store with one unit of the first product left (the pending order needs two), a
  configured server, a provider that accepts every refund, and a completed-payment event
  for the pending order's session, with and without a payment intent.
\<close>

definition scarceDb :: db where
  "scarceDb = sampleDb\<lparr>products := [productA\<lparr>p_stock := 1\<rparr>, productB]\<rparr>"

definition sampleEnv :: Env where
  "sampleEnv = \<lparr>stripeSecretKey = ''sk_test_key'', stripeWebhookSecret = ''whsec_test''\<rparr>"

definition paidSession :: StripeSession where
  "paidSession =
     \<lparr>s_id = ''cs_test_idempotent'', s_mode = ''payment'',
      s_payment_intent = PaymentIntentId ''pi_test'', s_url = None\<rparr>"

definition unpaidSession :: StripeSession where
  "unpaidSession = paidSession\<lparr>s_payment_intent := NoPaymentIntent\<rparr>"

definition completedEvent :: StripeEvent where
  "completedEvent = \<lparr>ev_type = ''checkout.session.completed'', ev_session = paidSession\<rparr>"

definition sampleStripe :: Stripe where
  "sampleStripe =
     \<lparr>constructEvent = (\<lambda>payload signature secret. Some completedEvent),
      refunds_create = (\<lambda>request. None),
      sessions_create = (\<lambda>customer_email line_items. Inr paidSession)\<rparr>"

definition sampleWorld :: world where
  "sampleWorld = \<lparr>w_db = sampleDb, w_refunds = [], w_audit = []\<rparr>"

definition scarceWorld :: world where
  "scarceWorld = \<lparr>w_db = scarceDb, w_refunds = [], w_audit = []\<rparr>"

text \<open>A third product that no order line references, in one cart.\<close>

definition productC :: Product where
  "productC =
     \<lparr>p_id = 3, p_slug = ''admin-widget'', p_name = ''Admin Widget'', p_price = 200,
      p_stock = 5\<rparr>"

definition widgetWorld :: world where
  "widgetWorld =
     sampleWorld\<lparr>w_db := sampleDb\<lparr>
       products := [productA, productB, productC],
       cartItems := cartItems sampleDb @
         [\<lparr>ci_userId = ''user-a'', ci_productId = 3, ci_quantity = 1\<rparr>]\<rparr>\<rparr>"

text \<open>A provider that opens a session not seen before.\<close>

definition freshSession :: StripeSession where
  "freshSession = paidSession\<lparr>s_id := ''cs_test_new'', s_payment_intent := NoPaymentIntent\<rparr>"

definition checkoutStripe :: Stripe where
  "checkoutStripe =
     sampleStripe\<lparr>sessions_create := (\<lambda>customer_email line_items. Inr freshSession)\<rparr>"

text \<open>The orders the two checkout paths create on the sample store.\<close>

definition createdOrderB :: Order where
  "createdOrderB =
     \<lparr>o_id = 3, o_userId = ''user-b'', o_orderCode = sampleCodes 0, o_status = PLACED,
      o_stripeSessionId = None, o_subtotal = 100, o_shipping = 12, o_total = 112,
      o_shippingTo = sampleShipping,
      o_lines = [\<lparr>ol_productId = 2, ol_productName = ''Test Checkout Race'',
                  ol_quantity = 1, ol_unitPrice = 100\<rparr>]\<rparr>"

definition createdOrderA :: Order where
  "createdOrderA =
     \<lparr>o_id = 3, o_userId = ''user-a'', o_orderCode = sampleCodes 0,
      o_status = PENDING_PAYMENT, o_stripeSessionId = Some ''cs_test_new'',
      o_subtotal = 240, o_shipping = 12, o_total = 252, o_shippingTo = sampleShipping,
      o_lines = [\<lparr>ol_productId = 1, ol_productName = ''Test Stripe Idempotency'',
                  ol_quantity = 2, ol_unitPrice = 120\<rparr>]\<rparr>"

text \<open>Attempts on the second product, of which one unit is in stock.\<close>

definition itemB :: CartItem where
  "itemB = \<lparr>ci_userId = ''user-b'', ci_productId = 2, ci_quantity = 1\<rparr>"

definition lineB :: OrderLine where
  "lineB = \<lparr>ol_productId = 2, ol_productName = ''Test Checkout Race'', ol_quantity = 1,
            ol_unitPrice = 100\<rparr>"

definition sampleAttempts :: "attempt list" where
  "sampleAttempts =
     [FinalizeDecrement (lineB\<lparr>ol_quantity := 2\<rparr>), CheckoutDecrement itemB productB,
      FinalizeDecrement lineB, FinalizeDecrement (hd (o_lines pendingOrder))]"

text \<open>The sample store after the pending order has been finalized.\<close>

definition finalizedDb :: db where
  "finalizedDb =
     \<lparr>products = [productA\<lparr>p_stock := 1\<rparr>, productB],
      cartItems = [\<lparr>ci_userId = ''user-b'', ci_productId = 2, ci_quantity = 1\<rparr>],
      orders = [pendingOrder\<lparr>o_status := PLACED\<rparr>, placedOrder]\<rparr>"

section \<open>Order codes: bounded retry\<close>

declare createOrderLoop.simps [simp del]

text \<open>
  Started at attempt \<open>j\<close> against the scripted client, with order-code conflicts at the
  attempts from \<open>j\<close> up to \<open>k\<close> and, at attempt \<open>k\<close>, an outcome that ends the loop, the
  loop returns that outcome and has called \<open>create\<close> for the attempts \<open>j\<close> to \<open>k\<close>.
\<close>

lemma createOrderLoop_scripted:
  assumes "k < ORDER_CODE_MAX_ATTEMPTS"
    and "\<forall>i. j \<le> i \<and> i < k \<longrightarrow> (\<exists>e. outcomes i = Inl e \<and> isOrderCodeConflict e)"
    and "case outcomes k of Inr order \<Rightarrow> True
         | Inl e \<Rightarrow> \<not> isOrderCodeConflict e \<or> k = ORDER_CODE_MAX_ATTEMPTS - 1"
    and "j \<le> k" and "length calls = j"
  shows "createOrderLoop (scriptedCreate outcomes) codes data j lastError calls =
         (outcomes k, calls @ map codes [j..<Suc k])"
  using assms
proof (induction "k - j" arbitrary: j lastError calls)
  case 0
  then have jk: "j = k" by simp
  show ?case
  proof (cases "outcomes k")
    case (Inl e)
    with 0 jk show ?thesis
      by (subst createOrderLoop.simps) (auto simp: scriptedCreate_def)
  next
    case (Inr order)
    with 0 jk show ?thesis
      by (subst createOrderLoop.simps) (auto simp: scriptedCreate_def)
  qed
next
  case (Suc n)
  then have lt: "j < k" by simp
  with Suc.prems obtain e where e: "outcomes j = Inl e" "isOrderCodeConflict e"
    by (meson order_refl)
  have step: "createOrderLoop (scriptedCreate outcomes) codes data j lastError calls =
      createOrderLoop (scriptedCreate outcomes) codes data (Suc j) (Some e) (calls @ [codes j])"
    using e lt Suc.prems(1,5)
    by (subst createOrderLoop.simps) (auto simp: scriptedCreate_def)
  have "createOrderLoop (scriptedCreate outcomes) codes data (Suc j) (Some e) (calls @ [codes j]) =
      (outcomes k, (calls @ [codes j]) @ map codes [Suc j..<Suc k])"
    using Suc.hyps(2) Suc.prems lt
    by (intro Suc.hyps(1)) auto
  with step lt show ?case
    by (simp add: upt_conv_Cons)
qed

text \<open>
  C4 (as the code has it). Against a client whose first \<open>k < 5\<close> calls fail with an
  order-code conflict: if call \<open>k\<close> succeeds, creation returns its order after exactly
  \<open>k + 1\<close> calls; if call \<open>k\<close> fails with any other error, that error is returned at once,
  after exactly \<open>k + 1\<close> calls. If the first five calls all fail with an order-code
  conflict, creation fails after exactly five calls, and the error is the conflict of the
  fifth call.
\<close>

theorem createOrderWithRetry_retry_bound:
  "(k < 5 \<longrightarrow> (\<forall>i<k. \<exists>e. outcomes i = Inl e \<and> isOrderCodeConflict e) \<longrightarrow>
      outcomes k = Inr order \<longrightarrow>
      createOrderWithRetry (scriptedCreate outcomes) codes data [] =
        (Inr order, map codes [0..<k + 1])) \<and>
   ((\<forall>i<5. \<exists>e. outcomes i = Inl e \<and> isOrderCodeConflict e) \<longrightarrow>
      createOrderWithRetry (scriptedCreate outcomes) codes data [] =
        (outcomes 4, map codes [0..<5])) \<and>
   (k < 5 \<longrightarrow> (\<forall>i<k. \<exists>e. outcomes i = Inl e \<and> isOrderCodeConflict e) \<longrightarrow>
      outcomes k = Inl err \<longrightarrow> \<not> isOrderCodeConflict err \<longrightarrow>
      createOrderWithRetry (scriptedCreate outcomes) codes data [] =
        (Inl err, map codes [0..<k + 1]))"
proof (intro conjI impI)
  assume "k < 5" "\<forall>i<k. \<exists>e. outcomes i = Inl e \<and> isOrderCodeConflict e" "outcomes k = Inr order"
  then show "createOrderWithRetry (scriptedCreate outcomes) codes data [] =
        (Inr order, map codes [0..<k + 1])"
    using createOrderLoop_scripted [of k 0 outcomes "[]" codes data None]
    by (simp add: createOrderWithRetry_def ORDER_CODE_MAX_ATTEMPTS_def)
next
  assume a: "\<forall>i<5. \<exists>e. outcomes i = Inl e \<and> isOrderCodeConflict e"
  have "(4::nat) < 5" by simp
  with a obtain e where "outcomes 4 = Inl e" "isOrderCodeConflict e"
    by blast
  with a show "createOrderWithRetry (scriptedCreate outcomes) codes data [] =
        (outcomes 4, map codes [0..<5])"
    using createOrderLoop_scripted [of 4 0 outcomes "[]" codes data None]
    by (simp add: createOrderWithRetry_def ORDER_CODE_MAX_ATTEMPTS_def)
next
  assume "k < 5" "\<forall>i<k. \<exists>e. outcomes i = Inl e \<and> isOrderCodeConflict e" "outcomes k = Inl err"
    "\<not> isOrderCodeConflict err"
  then show "createOrderWithRetry (scriptedCreate outcomes) codes data [] =
        (Inl err, map codes [0..<k + 1])"
    using createOrderLoop_scripted [of k 0 outcomes "[]" codes data None]
    by (simp add: createOrderWithRetry_def ORDER_CODE_MAX_ATTEMPTS_def)
qed

theorem createOrderWithRetry_retry_bound_witness:
  "createOrderWithRetry (scriptedCreate twoConflictsThenFree) sampleCodes () [] =
     (Inr (), map sampleCodes [0..<3]) \<and>
   createOrderWithRetry (scriptedCreate alwaysConflict) sampleCodes () [] =
     (Inl (PrismaClientKnownRequestError ''P2002'' (TargetArray [''orderCode''])),
      map sampleCodes [0..<5]) \<and>
   createOrderWithRetry (scriptedCreate conflictThenOther) sampleCodes () [] =
     (Inl (PrismaClientKnownRequestError ''P2002'' (TargetArray [''stripeSessionId''])),
      map sampleCodes [0..<3])"
proof (intro conjI)
  show "createOrderWithRetry (scriptedCreate twoConflictsThenFree) sampleCodes () [] =
     (Inr (), map sampleCodes [0..<3])"
    using createOrderWithRetry_retry_bound [of 2 twoConflictsThenFree "()" sampleCodes "()"]
    by (simp add: twoConflictsThenFree_def)
  show "createOrderWithRetry (scriptedCreate alwaysConflict) sampleCodes () [] =
     (Inl (PrismaClientKnownRequestError ''P2002'' (TargetArray [''orderCode''])),
      map sampleCodes [0..<5])"
    using createOrderWithRetry_retry_bound [of 0 alwaysConflict "()" sampleCodes "()"]
    by (simp add: alwaysConflict_def)
  show "createOrderWithRetry (scriptedCreate conflictThenOther) sampleCodes () [] =
     (Inl (PrismaClientKnownRequestError ''P2002'' (TargetArray [''stripeSessionId''])),
      map sampleCodes [0..<3])"
    using createOrderWithRetry_retry_bound [of 2 conflictThenOther "()" sampleCodes "()"
        "PrismaClientKnownRequestError ''P2002'' (TargetArray [''stripeSessionId''])"]
    by (simp add: conflictThenOther_def)
qed

text \<open>
  C4 as stated fails: after five order-code conflicts in a row the error that reaches the
  caller is not the "Unable to generate a unique order code." error but the conflict
  itself.
\<close>

theorem createOrderWithRetry_exhausted_counterexample:
  "map alwaysConflict [0, 1, 2, 3, 4] =
     replicate 5 (Inl (PrismaClientKnownRequestError ''P2002'' (TargetArray [''orderCode'']))) \<and>
   isOrderCodeConflict (PrismaClientKnownRequestError ''P2002'' (TargetArray [''orderCode''])) \<and>
   fst (createOrderWithRetry (scriptedCreate alwaysConflict) sampleCodes () []) \<noteq>
     Inl (HttpError 500 ''Unable to generate a unique order code.'') \<and>
   fst (createOrderWithRetry (scriptedCreate alwaysConflict) sampleCodes () []) =
     Inl (PrismaClientKnownRequestError ''P2002'' (TargetArray [''orderCode'']))"
  by (simp add: createOrderWithRetry_def createOrderLoop.simps scriptedCreate_def
      ORDER_CODE_MAX_ATTEMPTS_def alwaysConflict_def numeral_eq_Suc)

section \<open>Shipping policy\<close>

text \<open>
  C8. The shipping cost depends on the subtotal only: it is 0 for a subtotal of 0, 12 for
  every subtotal \<open>x\<close> with \<open>0 < x \<le> 250\<close>, and 0 for every subtotal \<open>y\<close> above 250.
\<close>

theorem computeShipping_policy:
  "0 < x \<Longrightarrow> x \<le> 250 \<Longrightarrow> 250 < y \<Longrightarrow>
   computeShipping 0 = 0 \<and> computeShipping x = 12 \<and> computeShipping y = 0"
  by (simp add: computeShipping_def)

theorem computeShipping_policy_witness:
  "(0::int) < 250 \<and> (250::int) \<le> 250 \<and> (250::int) < 251 \<and>
   computeShipping 0 = 0 \<and> computeShipping 250 = 12 \<and> computeShipping 251 = 0"
  using computeShipping_policy [of 250 251] by simp

section \<open>Finalization: lookup, owner check and short-circuit\<close>

lemma finalizeStripeOrder_read_only:
  "finalizeRead sessionId userId d = Inl err \<Longrightarrow>
   finalizeStripeOrder sessionId userId d = (Inl err, d)"
  "finalizeRead sessionId userId d = Inr (ReturnExisting ord) \<Longrightarrow>
   finalizeStripeOrder sessionId userId d = (Inr ord, d)"
  by (simp_all add: finalizeStripeOrder_def transaction_def)

text \<open>
  C5. When the order of the session is PLACED, FULFILLED or CANCELLED, an invocation of
  finalize leaves the whole store as it was (every order with its lines, every product and
  every cart item), and, unless it is rejected by the owner check that precedes the
  short-circuit, it returns that order.
\<close>

theorem finalize_absorbing_noop:
  assumes "order_findUnique_stripeSessionId sessionId d = Some ord"
    and "o_status ord \<in> {PLACED, FULFILLED, CANCELLED}"
  shows "snd (finalizeStripeOrder sessionId userId d) = d \<and>
         (\<not> (truthy userId \<and> Some (o_userId ord) \<noteq> userId) \<longrightarrow>
            fst (finalizeStripeOrder sessionId userId d) = Inr ord)"
proof (cases "truthy userId \<and> Some (o_userId ord) \<noteq> userId")
  case True
  with assms have "finalizeRead sessionId userId d = Inl noOrderForSession"
    by (simp add: finalizeRead_def)
  then show ?thesis
    using True by (simp add: finalizeStripeOrder_read_only)
next
  case False
  with assms have "finalizeRead sessionId userId d = Inr (ReturnExisting ord)"
    by (auto simp: finalizeRead_def)
  then show ?thesis
    by (simp add: finalizeStripeOrder_read_only)
qed

theorem finalize_absorbing_noop_witness:
  "order_findUnique_stripeSessionId ''cs_test_placed'' sampleDb = Some placedOrder \<and>
   o_status placedOrder \<in> {PLACED, FULFILLED, CANCELLED} \<and>
   snd (finalizeStripeOrder ''cs_test_placed'' (Some ''user-b'') sampleDb) = sampleDb \<and>
   fst (finalizeStripeOrder ''cs_test_placed'' (Some ''user-b'') sampleDb) = Inr placedOrder"
proof -
  have f: "order_findUnique_stripeSessionId ''cs_test_placed'' sampleDb = Some placedOrder"
    by (simp add: order_findUnique_stripeSessionId_def sampleDb_def pendingOrder_def
        placedOrder_def)
  have s: "o_status placedOrder \<in> {PLACED, FULFILLED, CANCELLED}"
    by (simp add: placedOrder_def)
  have u: "o_userId placedOrder = ''user-b''"
    by (simp add: placedOrder_def)
  show ?thesis
    using finalize_absorbing_noop [OF f s, of "Some ''user-b''"] f s u
    by (simp add: truthy_def)
qed

text \<open>
  C6. finalize fails with the one error "No order found for this Stripe session." (status
  404) both when no order has the session identifier and when an expected owner is
  supplied that is not the order's owner; in both cases the store is left as it was.
\<close>

theorem finalize_no_order_for_session:
  "(order_findUnique_stripeSessionId sessionId d = None \<longrightarrow>
      finalizeStripeOrder sessionId userId d =
        (Inl (HttpError 404 ''No order found for this Stripe session.''), d)) \<and>
   (order_findUnique_stripeSessionId sessionId d = Some ord \<longrightarrow>
    owner \<noteq> [] \<longrightarrow> o_userId ord \<noteq> owner \<longrightarrow>
      finalizeStripeOrder sessionId (Some owner) d =
        (Inl (HttpError 404 ''No order found for this Stripe session.''), d))"
proof (intro conjI impI)
  assume "order_findUnique_stripeSessionId sessionId d = None"
  then have "finalizeRead sessionId userId d = Inl noOrderForSession"
    by (simp add: finalizeRead_def)
  then show "finalizeStripeOrder sessionId userId d =
        (Inl (HttpError 404 ''No order found for this Stripe session.''), d)"
    by (simp add: finalizeStripeOrder_read_only noOrderForSession_def)
next
  assume "order_findUnique_stripeSessionId sessionId d = Some ord" "owner \<noteq> []"
    "o_userId ord \<noteq> owner"
  then have "finalizeRead sessionId (Some owner) d = Inl noOrderForSession"
    by (simp add: finalizeRead_def truthy_def)
  then show "finalizeStripeOrder sessionId (Some owner) d =
        (Inl (HttpError 404 ''No order found for this Stripe session.''), d)"
    by (simp add: finalizeStripeOrder_read_only noOrderForSession_def)
qed

theorem finalize_no_order_for_session_witness:
  "order_findUnique_stripeSessionId ''cs_unknown'' sampleDb = None \<and>
   finalizeStripeOrder ''cs_unknown'' None sampleDb =
     (Inl (HttpError 404 ''No order found for this Stripe session.''), sampleDb) \<and>
   order_findUnique_stripeSessionId ''cs_test_idempotent'' sampleDb = Some pendingOrder \<and>
   ''user-b'' \<noteq> [] \<and> o_userId pendingOrder \<noteq> ''user-b'' \<and>
   finalizeStripeOrder ''cs_test_idempotent'' (Some ''user-b'') sampleDb =
     (Inl (HttpError 404 ''No order found for this Stripe session.''), sampleDb)"
proof -
  have n: "order_findUnique_stripeSessionId ''cs_unknown'' sampleDb = None"
    by (simp add: order_findUnique_stripeSessionId_def sampleDb_def pendingOrder_def
        placedOrder_def)
  have f: "order_findUnique_stripeSessionId ''cs_test_idempotent'' sampleDb = Some pendingOrder"
    by (simp add: order_findUnique_stripeSessionId_def sampleDb_def pendingOrder_def)
  have u: "o_userId pendingOrder \<noteq> ''user-b''"
    by (simp add: pendingOrder_def)
  show ?thesis
    using finalize_no_order_for_session [of "''cs_unknown''" sampleDb None]
      finalize_no_order_for_session [of "''cs_test_idempotent''" sampleDb _ pendingOrder "''user-b''"]
      n f u
    by simp
qed

section \<open>Compensation\<close>

lemma find_map_preserved:
  assumes "\<And>x. P (f x) = P x"
  shows "find P (map f xs) = map_option f (find P xs)"
  by (induction xs) (simp_all add: assms)

lemma compensate_result:
  "compensateStripeFulfillmentFailure stripe session w =
     (if truthy (paymentIntentOf session) then
        (case refunds_create stripe (refundRequest session (the (paymentIntentOf session))) of
           Some err \<Rightarrow>
             (Inl err,
              w\<lparr>w_refunds := w_refunds w @ [refundRequest session (the (paymentIntentOf session))]\<rparr>)
         | None \<Rightarrow>
             (Inr (),
              w\<lparr>w_refunds := w_refunds w @ [refundRequest session (the (paymentIntentOf session))],
                w_db := snd (order_updateMany_status (cancelWhere session) CANCELLED (w_db w)),
                w_audit := w_audit w @
                  [(''stripe.order_cancelled_after_failed_fulfillment'',
                    [(''sessionId'', AString (s_id session)),
                     (''orderId'', optional (\<lambda>ord. ANumber (int (o_id ord)))
                        (order_findUnique_stripeSessionId (s_id session) (w_db w))),
                     (''userId'', optional (\<lambda>ord. AString (o_userId ord))
                        (order_findUnique_stripeSessionId (s_id session) (w_db w))),
                     (''orderCode'', optional (\<lambda>ord. AString (o_orderCode ord))
                        (order_findUnique_stripeSessionId (s_id session) (w_db w))),
                     (''hadPaymentIntent'', ABoolean True)])]\<rparr>))
      else
        (Inr (),
         w\<lparr>w_db := snd (order_updateMany_status (cancelWhere session) CANCELLED (w_db w)),
           w_audit := w_audit w @
             [(''stripe.order_cancelled_after_failed_fulfillment'',
               [(''sessionId'', AString (s_id session)),
                (''orderId'', optional (\<lambda>ord. ANumber (int (o_id ord)))
                   (order_findUnique_stripeSessionId (s_id session) (w_db w))),
                (''userId'', optional (\<lambda>ord. AString (o_userId ord))
                   (order_findUnique_stripeSessionId (s_id session) (w_db w))),
                (''orderCode'', optional (\<lambda>ord. AString (o_orderCode ord))
                   (order_findUnique_stripeSessionId (s_id session) (w_db w))),
                (''hadPaymentIntent'', ABoolean False)])]\<rparr>))"
  by (simp add: compensateStripeFulfillmentFailure_def Let_def auditLog_def
      order_updateMany_status_def split: prod.splits option.splits)

text \<open>
  C9. Compensation calls the provider's refund exactly when the session carries a payment
  intent (an identifier, or an expanded object, with a non-empty id). With no payment
  intent no refund is attempted, and still the conditional update to CANCELLED runs and the
  audit record is written. A refund that is issued carries the idempotency key
  "earthco-refund-" followed by the session identifier.
\<close>

theorem compensate_refund_guard:
  assumes "compensateStripeFulfillmentFailure stripe session w = (r, w')"
  shows "(s_payment_intent session = NoPaymentIntent \<longrightarrow>
            r = Inr () \<and> w_refunds w' = w_refunds w \<and>
            w_db w' = (w_db w)\<lparr>orders :=
              map (\<lambda>ord. if o_stripeSessionId ord = Some (s_id session) \<and>
                             o_status ord = PENDING_PAYMENT
                          then ord\<lparr>o_status := CANCELLED\<rparr> else ord) (orders (w_db w))\<rparr> \<and>
            (\<exists>payload. w_audit w' = w_audit w @
               [(''stripe.order_cancelled_after_failed_fulfillment'', payload)])) \<and>
         ((s_payment_intent session = PaymentIntentId pi \<or>
           s_payment_intent session = PaymentIntentObject pi) \<and> pi \<noteq> [] \<longrightarrow>
            w_refunds w' = w_refunds w @
              [\<lparr>r_payment_intent = pi, r_reason = ''requested_by_customer'',
                r_idempotencyKey = ''earthco-refund-'' @ s_id session\<rparr>]) \<and>
         ((w_refunds w' \<noteq> w_refunds w) =
            (\<exists>p. p \<noteq> [] \<and> (s_payment_intent session = PaymentIntentId p \<or>
                            s_payment_intent session = PaymentIntentObject p)))"
proof -
  have a: "r = Inr () \<and> w_refunds w' = w_refunds w \<and>
            w_db w' = (w_db w)\<lparr>orders :=
              map (\<lambda>ord. if o_stripeSessionId ord = Some (s_id session) \<and>
                             o_status ord = PENDING_PAYMENT
                          then ord\<lparr>o_status := CANCELLED\<rparr> else ord) (orders (w_db w))\<rparr> \<and>
            (\<exists>payload. w_audit w' = w_audit w @
               [(''stripe.order_cancelled_after_failed_fulfillment'', payload)])"
    if n: "s_payment_intent session = NoPaymentIntent"
  proof -
    from n have "\<not> truthy (paymentIntentOf session)"
      by (simp add: paymentIntentOf_def truthy_def)
    with assms show ?thesis
      by (auto simp: compensate_result order_updateMany_status_def cancelWhere_def)
  qed
  have b: "w_refunds w' = w_refunds w @
              [\<lparr>r_payment_intent = pi, r_reason = ''requested_by_customer'',
                r_idempotencyKey = ''earthco-refund-'' @ s_id session\<rparr>]"
    if p: "(s_payment_intent session = PaymentIntentId pi \<or>
           s_payment_intent session = PaymentIntentObject pi) \<and> pi \<noteq> []"
  proof -
    from p have "truthy (paymentIntentOf session)" "the (paymentIntentOf session) = pi"
      by (auto simp: paymentIntentOf_def truthy_def)
    with assms show ?thesis
      by (auto simp: compensate_result refundRequest_def split: option.splits)
  qed
  have t: "truthy (paymentIntentOf session) =
      (\<exists>p. p \<noteq> [] \<and> (s_payment_intent session = PaymentIntentId p \<or>
                            s_payment_intent session = PaymentIntentObject p))"
    by (cases "s_payment_intent session") (auto simp: paymentIntentOf_def truthy_def)
  from assms have "(w_refunds w' \<noteq> w_refunds w) = truthy (paymentIntentOf session)"
    by (auto simp: compensate_result split: option.splits if_splits)
  with t have c: "(w_refunds w' \<noteq> w_refunds w) =
            (\<exists>p. p \<noteq> [] \<and> (s_payment_intent session = PaymentIntentId p \<or>
                            s_payment_intent session = PaymentIntentObject p))"
    by simp
  from a b c show ?thesis
    by blast
qed


theorem compensate_refund_guard_witness:
  "s_payment_intent unpaidSession = NoPaymentIntent \<and>
   fst (compensateStripeFulfillmentFailure sampleStripe unpaidSession sampleWorld) = Inr () \<and>
   w_refunds (snd (compensateStripeFulfillmentFailure sampleStripe unpaidSession sampleWorld)) = [] \<and>
   orders (w_db (snd (compensateStripeFulfillmentFailure sampleStripe unpaidSession sampleWorld))) =
     [pendingOrder\<lparr>o_status := CANCELLED\<rparr>, placedOrder] \<and>
   map fst (w_audit (snd (compensateStripeFulfillmentFailure sampleStripe unpaidSession
     sampleWorld))) = [''stripe.order_cancelled_after_failed_fulfillment''] \<and>
   s_payment_intent paidSession = PaymentIntentId ''pi_test'' \<and>
   w_refunds (snd (compensateStripeFulfillmentFailure sampleStripe paidSession sampleWorld)) =
     [\<lparr>r_payment_intent = ''pi_test'', r_reason = ''requested_by_customer'',
       r_idempotencyKey = ''earthco-refund-cs_test_idempotent''\<rparr>]"
  using
    compensate_refund_guard [of sampleStripe unpaidSession sampleWorld
      "fst (compensateStripeFulfillmentFailure sampleStripe unpaidSession sampleWorld)"
      "snd (compensateStripeFulfillmentFailure sampleStripe unpaidSession sampleWorld)" "''pi_test''"]
    compensate_refund_guard [of sampleStripe paidSession sampleWorld
      "fst (compensateStripeFulfillmentFailure sampleStripe paidSession sampleWorld)"
      "snd (compensateStripeFulfillmentFailure sampleStripe paidSession sampleWorld)" "''pi_test''"]
  by (auto simp: unpaidSession_def paidSession_def sampleWorld_def sampleDb_def pendingOrder_def
      placedOrder_def)

lemma finalizeRead_ClaimTransition:
  "finalizeRead sessionId userId d = Inr (ClaimTransition ord) \<longleftrightarrow>
     order_findUnique_stripeSessionId sessionId d = Some ord \<and>
     \<not> (truthy userId \<and> Some (o_userId ord) \<noteq> userId) \<and>
     o_status ord = PENDING_PAYMENT"
  by (cases "o_status ord")
     (auto simp: finalizeRead_def split: option.splits)

lemma finalizeRead_error:
  "finalizeRead sessionId userId d = Inl err \<Longrightarrow> err = noOrderForSession"
  by (auto simp: finalizeRead_def split: option.splits if_splits)

lemma finalizeStripeOrder_rollback:
  "finalizeStripeOrder sessionId userId d = (Inl err, d') \<Longrightarrow> d' = d"
  by (auto simp: finalizeStripeOrder_def transaction_def split: prod.splits sum.splits)

lemma finalizeStripeOrder_failure_pending:
  assumes "finalizeStripeOrder sessionId userId d = (Inl (HttpError status message), d')"
    and "status \<noteq> 404"
  shows "\<exists>ord. order_findUnique_stripeSessionId sessionId d = Some ord \<and>
               o_status ord = PENDING_PAYMENT"
proof (cases "finalizeRead sessionId userId d")
  case (Inl err)
  with assms show ?thesis
    using finalizeRead_error [OF Inl]
    by (simp add: finalizeStripeOrder_read_only noOrderForSession_def)
next
  case (Inr out)
  show ?thesis
  proof (cases out)
    case (ReturnExisting ord)
    with Inr assms show ?thesis
      by (simp add: finalizeStripeOrder_read_only)
  next
    case (ClaimTransition ord)
    with Inr show ?thesis
      by (auto simp: finalizeRead_ClaimTransition)
  qed
qed

text \<open>
  C3. A webhook delivery for a completed payment whose finalization fails with status 409
  (out of stock) or 400 runs the compensation. When the provider accepts the refund call,
  the delivery is acknowledged, the refund for the session's payment intent has been
  requested, and the order of the session is CANCELLED afterwards. The cancellation is a
  conditional update: exactly the orders with this session that are in PENDING_PAYMENT
  change, and only in their status.
\<close>

theorem webhook_compensation_cancels:
  assumes "getStripeClient env = Inr ()"
    and "getWebhookEvent env stripe bodyBuffer stripeSignature = Inr event"
    and "ev_type event = ''checkout.session.completed'' \<or>
         ev_type event = ''checkout.session.async_payment_succeeded''"
    and "s_mode (ev_session event) = ''payment''"
    and "finalizeStripeOrder (s_id (ev_session event)) None (w_db w) =
           (Inl (HttpError status message), d')"
    and "status = 400 \<or> status = 409"
    and "\<forall>request. refunds_create stripe request = None"
    and "webhook env stripe bodyBuffer stripeSignature w = (r, w')"
  shows "r = Inr (Response 200 Received) \<and>
         (\<exists>ord. order_findUnique_stripeSessionId (s_id (ev_session event)) (w_db w') = Some ord \<and>
                o_status ord = CANCELLED) \<and>
         w_db w' = (w_db w)\<lparr>orders :=
           map (\<lambda>ord. if o_stripeSessionId ord = Some (s_id (ev_session event)) \<and>
                          o_status ord = PENDING_PAYMENT
                       then ord\<lparr>o_status := CANCELLED\<rparr> else ord) (orders (w_db w))\<rparr> \<and>
         w_refunds w' = w_refunds w @
           (case paymentIntentOf (ev_session event) of
              None \<Rightarrow> []
            | Some pi \<Rightarrow>
                if pi = [] then []
                else [\<lparr>r_payment_intent = pi, r_reason = ''requested_by_customer'',
                       r_idempotencyKey = ''earthco-refund-'' @ s_id (ev_session event)\<rparr>])"
proof -
  let ?session = "ev_session event"
  let ?f = "\<lambda>ord. if o_stripeSessionId ord = Some (s_id ?session) \<and>
                          o_status ord = PENDING_PAYMENT
                       then ord\<lparr>o_status := CANCELLED\<rparr> else ord"
  from assms(5) have d': "d' = w_db w"
    by (rule finalizeStripeOrder_rollback)
  from assms(5,6) obtain ord where ord:
    "order_findUnique_stripeSessionId (s_id ?session) (w_db w) = Some ord"
    "o_status ord = PENDING_PAYMENT"
    using finalizeStripeOrder_failure_pending by fastforce
  obtain rc wc where c: "compensateStripeFulfillmentFailure stripe ?session w = (rc, wc)"
    by (cases "compensateStripeFulfillmentFailure stripe ?session w")
  from c assms(7) have rc: "rc = Inr ()"
    and db: "w_db wc = (w_db w)\<lparr>orders := map ?f (orders (w_db w))\<rparr>"
    and rf: "w_refunds wc = w_refunds w @
           (case paymentIntentOf ?session of
              None \<Rightarrow> []
            | Some pi \<Rightarrow>
                if pi = [] then []
                else [\<lparr>r_payment_intent = pi, r_reason = ''requested_by_customer'',
                       r_idempotencyKey = ''earthco-refund-'' @ s_id ?session\<rparr>])"
    by (auto simp: compensate_result order_updateMany_status_def cancelWhere_def
        refundRequest_def truthy_def split: if_splits option.splits)
  from assms(1-6,8) c rc d' have w': "r = Inr (Response 200 Received)"
    "w_db w' = w_db wc" "w_refunds w' = w_refunds wc"
    by (auto simp: webhook_def Let_def auditLog_def)
  have sid: "o_stripeSessionId ord = Some (s_id ?session)"
    using ord(1) by (auto simp: order_findUnique_stripeSessionId_def find_Some_iff)
  have fo: "find (\<lambda>ord. o_stripeSessionId ord = Some (s_id ?session)) (orders (w_db w)) = Some ord"
    using ord(1) by (simp add: order_findUnique_stripeSessionId_def)
  have "find (\<lambda>ord. o_stripeSessionId ord = Some (s_id ?session)) (map ?f (orders (w_db w))) =
        map_option ?f (find (\<lambda>ord. o_stripeSessionId ord = Some (s_id ?session)) (orders (w_db w)))"
    by (rule find_map_preserved) simp
  with fo sid ord(2) have "order_findUnique_stripeSessionId (s_id ?session) (w_db wc) =
      Some (ord\<lparr>o_status := CANCELLED\<rparr>)"
    by (simp add: order_findUnique_stripeSessionId_def db)
  with w' db rf show ?thesis
    by simp
qed

theorem webhook_compensation_cancels_witness:
  "getStripeClient sampleEnv = Inr () \<and>
   getWebhookEvent sampleEnv sampleStripe ''{}'' (Some ''t=1,v1=00'') = Inr completedEvent \<and>
   ev_type completedEvent = ''checkout.session.completed'' \<and>
   s_mode (ev_session completedEvent) = ''payment'' \<and>
   finalizeStripeOrder (s_id (ev_session completedEvent)) None (w_db scarceWorld) =
     (Inl (HttpError 409 ''Test Stripe Idempotency is out of stock.''), scarceDb) \<and>
   (\<forall>request. refunds_create sampleStripe request = None) \<and>
   fst (webhook sampleEnv sampleStripe ''{}'' (Some ''t=1,v1=00'') scarceWorld) =
     Inr (Response 200 Received) \<and>
   orders (w_db (snd (webhook sampleEnv sampleStripe ''{}'' (Some ''t=1,v1=00'') scarceWorld))) =
     [pendingOrder\<lparr>o_status := CANCELLED\<rparr>, placedOrder] \<and>
   w_refunds (snd (webhook sampleEnv sampleStripe ''{}'' (Some ''t=1,v1=00'') scarceWorld)) =
     [\<lparr>r_payment_intent = ''pi_test'', r_reason = ''requested_by_customer'',
       r_idempotencyKey = ''earthco-refund-cs_test_idempotent''\<rparr>]"
proof -
  have h1: "getStripeClient sampleEnv = Inr ()"
    by (simp add: getStripeClient_def sampleEnv_def)
  have h2: "getWebhookEvent sampleEnv sampleStripe ''{}'' (Some ''t=1,v1=00'') = Inr completedEvent"
    by (simp add: getWebhookEvent_def sampleEnv_def sampleStripe_def truthy_def)
  have h3: "ev_type completedEvent = ''checkout.session.completed'' \<or>
         ev_type completedEvent = ''checkout.session.async_payment_succeeded''"
    by (simp add: completedEvent_def)
  have h4: "s_mode (ev_session completedEvent) = ''payment''"
    by (simp add: completedEvent_def paidSession_def)
  have h5: "finalizeStripeOrder (s_id (ev_session completedEvent)) None (w_db scarceWorld) =
     (Inl (HttpError 409 ''Test Stripe Idempotency is out of stock.''), scarceDb)"
    by (simp add: finalizeStripeOrder_def transaction_def finalizeRead_def claimTransition_def
        claimWhere_def order_updateMany_status_def order_findUnique_stripeSessionId_def
        product_updateMany_decrement_def truthy_def completedEvent_def paidSession_def
        scarceWorld_def scarceDb_def sampleDb_def pendingOrder_def placedOrder_def
        productA_def productB_def)
  have h6: "(409::int) = 400 \<or> (409::int) = 409"
    by simp
  have h7: "\<forall>request. refunds_create sampleStripe request = None"
    by (simp add: sampleStripe_def)
  show ?thesis
    using webhook_compensation_cancels [OF h1 h2 h3 h4 h5 h6 h7,
        of "fst (webhook sampleEnv sampleStripe ''{}'' (Some ''t=1,v1=00'') scarceWorld)"
           "snd (webhook sampleEnv sampleStripe ''{}'' (Some ''t=1,v1=00'') scarceWorld)"]
      h1 h2 h4 h5 h7
    by (simp add: completedEvent_def paidSession_def paymentIntentOf_def scarceWorld_def
        scarceDb_def sampleDb_def pendingOrder_def placedOrder_def)
qed

section \<open>Deleting a product\<close>

lemma orderLine_count_positive:
  "orderLine_count_productId i d > 0 \<longleftrightarrow>
     (\<exists>ord \<in> set (orders d). \<exists>line \<in> set (o_lines ord). ol_productId line = i)"
  by (auto simp: orderLine_count_productId_def filter_empty_conv)

lemma deleteProduct_blocked:
  "orderLine_count_productId i (w_db w) > 0 \<Longrightarrow>
   deleteProduct actorId ip (Some i) w =
     (Inr (Response 409
        (Message ''Cannot delete a product that already appears in past orders.'')),
      auditLog ''admin.product_delete_blocked_by_orders''
        [(''actorId'', optional AString actorId), (''ip'', AString ip),
         (''productId'', ANumber i)] w)"
  by (simp add: deleteProduct_def)

lemma deleteProduct_unblocked_db:
  "orderLine_count_productId i (w_db w) = 0 \<Longrightarrow>
   w_db (snd (deleteProduct actorId ip (Some i) w)) =
     snd (product_delete i (cartItem_deleteMany (\<lambda>c. ci_productId c = i) (w_db w)))"
  by (auto simp: deleteProduct_def Let_def auditLog_def product_delete_def
      split: prod.splits sum.splits error.splits)

text \<open>
  C10. Deleting a product that some order line references is refused with status 409 and
  leaves the store as it was (the product, its stock, every order line). A product
  disappears from the catalogue only through a delete request for its own id when no
  order line references it; the cart items that reference it are deleted before the
  product row is, so none is left, and the orders are untouched.
\<close>

theorem deleteProduct_order_history_guard:
  "(ord \<in> set (orders (w_db w)) \<longrightarrow> line \<in> set (o_lines ord) \<longrightarrow>
      fst (deleteProduct actorId ip (Some (ol_productId line)) w) =
        Inr (Response 409
          (Message ''Cannot delete a product that already appears in past orders.'')) \<and>
      w_db (snd (deleteProduct actorId ip (Some (ol_productId line)) w)) = w_db w) \<and>
   (p \<in> set (products (w_db w)) \<longrightarrow>
    p \<notin> set (products (w_db (snd (deleteProduct actorId ip idParam w)))) \<longrightarrow>
      idParam = Some (p_id p) \<and>
      (\<forall>ord \<in> set (orders (w_db w)). \<forall>line \<in> set (o_lines ord). ol_productId line \<noteq> p_id p) \<and>
      w_db (snd (deleteProduct actorId ip idParam w)) =
        snd (product_delete (p_id p)
               (cartItem_deleteMany (\<lambda>c. ci_productId c = p_id p) (w_db w))) \<and>
      (\<forall>c \<in> set (cartItems (w_db (snd (deleteProduct actorId ip idParam w)))).
          ci_productId c \<noteq> p_id p) \<and>
      orders (w_db (snd (deleteProduct actorId ip idParam w))) = orders (w_db w))"
proof -
  have a: "fst (deleteProduct actorId ip (Some (ol_productId line)) w) =
        Inr (Response 409
          (Message ''Cannot delete a product that already appears in past orders.'')) \<and>
      w_db (snd (deleteProduct actorId ip (Some (ol_productId line)) w)) = w_db w"
    if "ord \<in> set (orders (w_db w))" "line \<in> set (o_lines ord)"
  proof -
    from that have "orderLine_count_productId (ol_productId line) (w_db w) > 0"
      unfolding orderLine_count_positive by blast
    then show ?thesis
      by (simp add: deleteProduct_blocked auditLog_def)
  qed
  have b: "idParam = Some (p_id p) \<and>
      (\<forall>ord \<in> set (orders (w_db w)). \<forall>line \<in> set (o_lines ord). ol_productId line \<noteq> p_id p) \<and>
      w_db (snd (deleteProduct actorId ip idParam w)) =
        snd (product_delete (p_id p)
               (cartItem_deleteMany (\<lambda>c. ci_productId c = p_id p) (w_db w))) \<and>
      (\<forall>c \<in> set (cartItems (w_db (snd (deleteProduct actorId ip idParam w)))).
          ci_productId c \<noteq> p_id p) \<and>
      orders (w_db (snd (deleteProduct actorId ip idParam w))) = orders (w_db w)"
    if p: "p \<in> set (products (w_db w))"
      and gone: "p \<notin> set (products (w_db (snd (deleteProduct actorId ip idParam w))))"
  proof -
    from p gone obtain i where i: "idParam = Some i"
      by (cases idParam) (auto simp: deleteProduct_def)
    have zero: "orderLine_count_productId i (w_db w) = 0"
    proof (rule ccontr)
      assume "orderLine_count_productId i (w_db w) \<noteq> 0"
      then have "w_db (snd (deleteProduct actorId ip (Some i) w)) = w_db w"
        by (simp add: deleteProduct_blocked auditLog_def)
      with p gone i show False by simp
    qed
    note db = deleteProduct_unblocked_db [OF zero, of actorId ip]
    from p gone i db have pi: "p_id p = i"
      by (auto simp: product_delete_def cartItem_deleteMany_def split: if_splits)
    from zero have "\<not> orderLine_count_productId i (w_db w) > 0" by simp
    then have nolines: "\<forall>ord \<in> set (orders (w_db w)). \<forall>line \<in> set (o_lines ord).
        ol_productId line \<noteq> i"
      unfolding orderLine_count_positive by blast
    from i pi db nolines show ?thesis
      by (auto simp: product_delete_def cartItem_deleteMany_def)
  qed
  from a b show ?thesis by blast
qed

theorem deleteProduct_order_history_guard_witness:
  "pendingOrder \<in> set (orders (w_db widgetWorld)) \<and>
   hd (o_lines pendingOrder) \<in> set (o_lines pendingOrder) \<and>
   ol_productId (hd (o_lines pendingOrder)) = 1 \<and>
   fst (deleteProduct (Some ''admin'') ''127.0.0.1'' (Some 1) widgetWorld) =
     Inr (Response 409 (Message ''Cannot delete a product that already appears in past orders.'')) \<and>
   w_db (snd (deleteProduct (Some ''admin'') ''127.0.0.1'' (Some 1) widgetWorld)) = w_db widgetWorld \<and>
   productC \<in> set (products (w_db widgetWorld)) \<and>
   productC \<notin> set (products (w_db (snd (deleteProduct (Some ''admin'') ''127.0.0.1'' (Some 3)
      widgetWorld)))) \<and>
   w_db (snd (deleteProduct (Some ''admin'') ''127.0.0.1'' (Some 3) widgetWorld)) = sampleDb"
proof -
  have h1: "pendingOrder \<in> set (orders (w_db widgetWorld))"
    by (simp add: widgetWorld_def sampleWorld_def sampleDb_def)
  have h2: "hd (o_lines pendingOrder) \<in> set (o_lines pendingOrder)"
    by (simp add: pendingOrder_def)
  have h3: "ol_productId (hd (o_lines pendingOrder)) = 1"
    by (simp add: pendingOrder_def)
  have h4: "productC \<in> set (products (w_db widgetWorld))"
    by (simp add: widgetWorld_def sampleWorld_def sampleDb_def)
  have h5: "productC \<notin> set (products (w_db (snd (deleteProduct (Some ''admin'') ''127.0.0.1''
      (Some 3) widgetWorld))))"
    by (simp add: deleteProduct_def orderLine_count_productId_def widgetWorld_def
        sampleWorld_def sampleDb_def pendingOrder_def placedOrder_def product_delete_def
        cartItem_deleteMany_def product_findUnique_id_def auditLog_def
        productA_def productB_def productC_def)
  show ?thesis
    using deleteProduct_order_history_guard [of pendingOrder widgetWorld
        "hd (o_lines pendingOrder)" "Some ''admin''" "''127.0.0.1''" productC "Some 3"]
      h1 h2 h3 h4 h5
    by (simp add: product_delete_def cartItem_deleteMany_def widgetWorld_def sampleWorld_def
        sampleDb_def productA_def productB_def productC_def)
qed

section \<open>Created orders\<close>

lemma createOrderLoop_success:
  "createOrderLoop create codes data attempt lastError s = (Inr ord, s') \<Longrightarrow>
   \<exists>i s0. create (codes i) data s0 = (Inr ord, s')"
proof (induction create codes data attempt lastError s rule: createOrderLoop.induct)
  case (1 create codes data attempt lastError s)
  show ?case
  proof (cases "attempt < ORDER_CODE_MAX_ATTEMPTS")
    case False
    with "1.prems" show ?thesis
      by (subst (asm) createOrderLoop.simps) (simp split: option.splits)
  next
    case True
    obtain r s1 where c: "create (codes attempt) data s = (r, s1)"
      by (cases "create (codes attempt) data s")
    show ?thesis
    proof (cases r)
      case (Inr order)
      with True c "1.prems" show ?thesis
        by (subst (asm) createOrderLoop.simps) auto
    next
      case (Inl err)
      show ?thesis
      proof (cases "isOrderCodeConflict err \<and> attempt < ORDER_CODE_MAX_ATTEMPTS - 1")
        case False
        with True c Inl "1.prems" show ?thesis
          by (subst (asm) createOrderLoop.simps) auto
      next
        case retry: True
        with True c Inl "1.prems"
        have "createOrderLoop create codes data (attempt + 1) (Some err) s1 = (Inr ord, s')"
          by (subst (asm) createOrderLoop.simps) auto
        then show ?thesis
          by (rule "1.IH" [OF True c [symmetric] Inl retry])
      qed
    qed
  qed
qed

lemma order_create_success:
  assumes "order_create code data s0 = (Inr ord, s')"
  shows "o_subtotal ord = d_subtotal data \<and> o_shipping ord = d_shipping data \<and>
         o_total ord = d_total data \<and> o_lines ord = d_lines data \<and>
         o_userId ord = d_userId data \<and> o_stripeSessionId ord = d_stripeSessionId data \<and>
         o_status ord = (case d_status data of None \<Rightarrow> PLACED | Some st \<Rightarrow> st) \<and>
         o_orderCode ord = code \<and>
         s' = s0\<lparr>orders := orders s0 @ [ord]\<rparr>"
  using assms
  by (auto simp: order_create_def Let_def split: if_splits)

lemma subtotalOf_foldl:
  "foldl (\<lambda>sum (item, product). sum + p_price product * ci_quantity item) a cart =
   a + (\<Sum>l\<leftarrow>linesOf cart. ol_unitPrice l * ol_quantity l)"
  by (induction cart arbitrary: a) (auto simp: linesOf_def)

lemma subtotalOf_lines:
  "subtotalOf cart = (\<Sum>l\<leftarrow>linesOf cart. ol_unitPrice l * ol_quantity l)"
  by (simp add: subtotalOf_def subtotalOf_foldl)


lemma order_create_failure:
  "order_create code data s = (Inl err, s') \<Longrightarrow> s' = s"
  by (auto simp: order_create_def Let_def split: if_splits)

lemma createOrderLoop_order_create:
  "createOrderLoop order_create codes data attempt lastError s = (r, s') \<Longrightarrow>
   (case r of Inl err \<Rightarrow> s' = s
    | Inr ord \<Rightarrow> \<exists>i. order_create (codes i) data s = (Inr ord, s'))"
proof (induction order_create codes data attempt lastError s rule: createOrderLoop.induct)
  case (1 codes data attempt lastError s)
  show ?case
  proof (cases "attempt < ORDER_CODE_MAX_ATTEMPTS")
    case False
    with "1.prems" show ?thesis
      by (subst (asm) createOrderLoop.simps) (auto split: option.splits)
  next
    case True
    obtain r1 s1 where c: "order_create (codes attempt) data s = (r1, s1)"
      by (cases "order_create (codes attempt) data s")
    show ?thesis
    proof (cases r1)
      case (Inr order)
      with True c "1.prems" show ?thesis
        by (subst (asm) createOrderLoop.simps) auto
    next
      case (Inl err)
      with c have s1: "s1 = s"
        by (simp add: order_create_failure)
      show ?thesis
      proof (cases "isOrderCodeConflict err \<and> attempt < ORDER_CODE_MAX_ATTEMPTS - 1")
        case False
        with True c Inl s1 "1.prems" show ?thesis
          by (subst (asm) createOrderLoop.simps) auto
      next
        case retry: True
        with True c Inl "1.prems"
        have "createOrderLoop order_create codes data (attempt + 1) (Some err) s1 = (r, s')"
          by (subst (asm) createOrderLoop.simps) auto
        then have "case r of Inl err \<Rightarrow> s' = s1
          | Inr ord \<Rightarrow> \<exists>i. order_create (codes i) data s1 = (Inr ord, s')"
          by (rule "1.hyps" [OF True c [symmetric] Inl retry])
        with s1 show ?thesis by (cases r) auto
      qed
    qed
  qed
qed

lemma createOrderWithRetry_order_create:
  assumes "createOrderWithRetry order_create codes data s = (Inr ord, s')"
  shows "o_subtotal ord = d_subtotal data \<and> o_shipping ord = d_shipping data \<and>
         o_total ord = d_total data \<and> o_lines ord = d_lines data \<and>
         s' = s\<lparr>orders := orders s @ [ord]\<rparr>"
proof -
  from assms obtain i where "order_create (codes i) data s = (Inr ord, s')"
    using createOrderLoop_order_create [of codes data 0 None s "Inr ord" s']
    by (auto simp: createOrderWithRetry_def)
  then show ?thesis
    by (simp add: order_create_success)
qed

text \<open>
  C7. An order created by the immediate checkout or by the provider-mediated checkout is
  stored, its total is its subtotal plus its shipping, its subtotal is the sum over its
  lines of unit price times quantity, and its lines are the user's cart items as read at
  checkout, each with the product's name and price and the item's quantity.
\<close>

theorem checkout_order_totals:
  "(checkout codes userId parsed d = (Inr ord, d') \<longrightarrow>
      ord \<in> set (orders d') \<and>
      o_total ord = o_subtotal ord + o_shipping ord \<and>
      o_subtotal ord = (\<Sum>line\<leftarrow>o_lines ord. ol_unitPrice line * ol_quantity line) \<and>
      o_lines ord =
        map (\<lambda>(item, product).
               \<lparr>ol_productId = ci_productId item, ol_productName = p_name product,
                ol_quantity = ci_quantity item, ol_unitPrice = p_price product\<rparr>)
          (cartItem_findMany_product userId d)) \<and>
   (checkoutSession env stripe codes userId parsed d = (Inr (session, pending), d'') \<longrightarrow>
      pending \<in> set (orders d'') \<and>
      o_total pending = o_subtotal pending + o_shipping pending \<and>
      o_subtotal pending =
        (\<Sum>line\<leftarrow>o_lines pending. ol_unitPrice line * ol_quantity line) \<and>
      o_lines pending =
        map (\<lambda>(item, product).
               \<lparr>ol_productId = ci_productId item, ol_productName = p_name product,
                ol_quantity = ci_quantity item, ol_unitPrice = p_price product\<rparr>)
          (cartItem_findMany_product userId d))"
proof -
  let ?cart = "cartItem_findMany_product userId d"
  have a: "ord \<in> set (orders d') \<and>
      o_total ord = o_subtotal ord + o_shipping ord \<and>
      o_subtotal ord = (\<Sum>line\<leftarrow>o_lines ord. ol_unitPrice line * ol_quantity line) \<and>
      o_lines ord = linesOf ?cart"
    if c: "checkout codes userId parsed d = (Inr ord, d')"
  proof -
    from c obtain data d1 d2 where
      cr: "createOrderWithRetry order_create codes data d1 = (Inr ord, d2)"
      and data: "d_subtotal data = subtotalOf ?cart"
        "d_total data = subtotalOf ?cart + d_shipping data" "d_lines data = linesOf ?cart"
      and d': "d' = cartItem_deleteMany (\<lambda>c. ci_userId c = userId) d2"
      by (auto simp: checkout_def transaction_def Let_def
          split: if_splits option.splits sum.splits prod.splits)
    from createOrderWithRetry_order_create [OF cr] data d' show ?thesis
      by (simp add: cartItem_deleteMany_def subtotalOf_lines)
  qed
  have b: "pending \<in> set (orders d'') \<and>
      o_total pending = o_subtotal pending + o_shipping pending \<and>
      o_subtotal pending =
        (\<Sum>line\<leftarrow>o_lines pending. ol_unitPrice line * ol_quantity line) \<and>
      o_lines pending = linesOf ?cart"
    if c: "checkoutSession env stripe codes userId parsed d = (Inr (session, pending), d'')"
  proof -
    from c obtain data where
      cr: "createOrderWithRetry order_create codes data d = (Inr pending, d'')"
      and data: "d_subtotal data = subtotalOf ?cart"
        "d_total data = subtotalOf ?cart + d_shipping data" "d_lines data = linesOf ?cart"
      by (auto simp: checkoutSession_def transaction_def Let_def
          split: if_splits option.splits sum.splits prod.splits)
    from createOrderWithRetry_order_create [OF cr] data show ?thesis
      by (simp add: subtotalOf_lines)
  qed
  from a b show ?thesis
    by (simp add: linesOf_def)
qed

lemma trimmed_sampleShipping: "trimmed sampleShipping = sampleShipping"
  by (simp add: trimmed_def trim_def isSpace_def sampleShipping_def)

theorem checkout_order_totals_witness:
  "checkout sampleCodes ''user-b'' sampleShipping sampleDb =
     (Inr createdOrderB,
      \<lparr>products = [productA, productB\<lparr>p_stock := 0\<rparr>],
       cartItems = [\<lparr>ci_userId = ''user-a'', ci_productId = 1, ci_quantity = 2\<rparr>],
       orders = [pendingOrder, placedOrder, createdOrderB]\<rparr>) \<and>
   o_total createdOrderB = o_subtotal createdOrderB + o_shipping createdOrderB \<and>
   o_subtotal createdOrderB =
     (\<Sum>line\<leftarrow>o_lines createdOrderB. ol_unitPrice line * ol_quantity line) \<and>
   checkoutSession sampleEnv checkoutStripe sampleCodes ''user-a'' sampleShipping sampleDb =
     (Inr (freshSession, createdOrderA),
      sampleDb\<lparr>orders := [pendingOrder, placedOrder, createdOrderA]\<rparr>) \<and>
   o_total createdOrderA = o_subtotal createdOrderA + o_shipping createdOrderA \<and>
   o_subtotal createdOrderA =
     (\<Sum>line\<leftarrow>o_lines createdOrderA. ol_unitPrice line * ol_quantity line)"
proof -
  have h1: "checkout sampleCodes ''user-b'' sampleShipping sampleDb =
     (Inr createdOrderB,
      \<lparr>products = [productA, productB\<lparr>p_stock := 0\<rparr>],
       cartItems = [\<lparr>ci_userId = ''user-a'', ci_productId = 1, ci_quantity = 2\<rparr>],
       orders = [pendingOrder, placedOrder, createdOrderB]\<rparr>)"
    by (simp add: checkout_def transaction_def cartItem_findMany_product_def
        List.map_filter_simps subtotalOf_def linesOf_def computeShipping_def
        product_updateMany_decrement_def createOrderWithRetry_def createOrderLoop.simps
        ORDER_CODE_MAX_ATTEMPTS_def order_create_def cartItem_deleteMany_def
        trimmed_sampleShipping sampleDb_def productA_def productB_def pendingOrder_def
        placedOrder_def createdOrderB_def sampleCodes_def Let_def)
  have h2: "checkoutSession sampleEnv checkoutStripe sampleCodes ''user-a'' sampleShipping
      sampleDb =
     (Inr (freshSession, createdOrderA),
      sampleDb\<lparr>orders := [pendingOrder, placedOrder, createdOrderA]\<rparr>)"
    by (simp add: checkoutSession_def transaction_def cartItem_findMany_product_def
        List.map_filter_simps subtotalOf_def linesOf_def computeShipping_def lineItemsOf_def
        getStripeClient_def sampleEnv_def checkoutStripe_def sampleStripe_def
        freshSession_def paidSession_def createOrderWithRetry_def createOrderLoop.simps
        ORDER_CODE_MAX_ATTEMPTS_def order_create_def trimmed_sampleShipping sampleDb_def
        productA_def productB_def pendingOrder_def placedOrder_def createdOrderA_def
        sampleCodes_def Let_def)
  show ?thesis
    using
      checkout_order_totals [of sampleCodes "''user-b''" sampleShipping sampleDb createdOrderB
        "\<lparr>products = [productA, productB\<lparr>p_stock := 0\<rparr>],
          cartItems = [\<lparr>ci_userId = ''user-a'', ci_productId = 1, ci_quantity = 2\<rparr>],
          orders = [pendingOrder, placedOrder, createdOrderB]\<rparr>"]
      checkout_order_totals [of sampleCodes "''user-a''" sampleShipping sampleDb _ _
        sampleEnv checkoutStripe freshSession createdOrderA
        "sampleDb\<lparr>orders := [pendingOrder, placedOrder, createdOrderA]\<rparr>"]
      h1 h2
    by simp
qed

section \<open>The stock ledger\<close>

lemma attemptDecrement_eq:
  "attemptDecrement a d =
     (case product_updateMany_decrement (attemptProduct a) (attemptQuantity a) d of
        (count, d') \<Rightarrow> if count = 0 then Inl (outOfStock a) else Inr d')"
  by (cases a) (simp_all split: prod.splits)

lemma decrement_ids:
  "map p_id (products (snd (product_updateMany_decrement i q d))) = map p_id (products d)"
  by (simp add: product_updateMany_decrement_def)

lemma decrement_stockOf:
  "stockOf x (snd (product_updateMany_decrement i q d)) =
     (if x = i \<and> q \<le> stockOf x d \<and> x \<in> set (map p_id (products d))
      then stockOf x d - q else stockOf x d)"
proof -
  let ?f = "\<lambda>p. if p_id p = i \<and> p_stock p \<ge> q then p\<lparr>p_stock := p_stock p - q\<rparr> else p"
  have m: "find (\<lambda>p. p_id p = x) (map ?f (products d)) =
        map_option ?f (find (\<lambda>p. p_id p = x) (products d))"
    by (rule find_map_preserved) simp
  show ?thesis
  proof (cases "find (\<lambda>p. p_id p = x) (products d)")
    case None
    then have "x \<notin> set (map p_id (products d))"
      by (auto simp: find_None_iff)
    with None m show ?thesis
      by (simp add: stockOf_def product_findUnique_id_def product_updateMany_decrement_def)
  next
    case (Some r)
    then have "p_id r = x" "r \<in> set (products d)"
      by (auto simp: find_Some_iff)
    then have "x \<in> set (map p_id (products d))"
      by auto
    with Some m \<open>p_id r = x\<close> show ?thesis
      by (auto simp: stockOf_def product_findUnique_id_def product_updateMany_decrement_def)
  qed
qed

lemma find_distinct_id:
  assumes "distinct (map p_id ps)" and "r \<in> set ps"
  shows "find (\<lambda>p. p_id p = p_id r) ps = Some r"
  using assms by (induction ps) (auto simp: rev_image_eqI)

lemma decrement_count:
  assumes "distinct (map p_id (products d))"
  shows "fst (product_updateMany_decrement i q d) \<noteq> 0 \<longleftrightarrow>
         i \<in> set (map p_id (products d)) \<and> q \<le> stockOf i d"
proof -
  have "fst (product_updateMany_decrement i q d) \<noteq> 0 \<longleftrightarrow>
        (\<exists>r \<in> set (products d). p_id r = i \<and> q \<le> p_stock r)"
    by (auto simp: product_updateMany_decrement_def filter_empty_conv)
  also have "\<dots> \<longleftrightarrow> i \<in> set (map p_id (products d)) \<and> q \<le> stockOf i d"
    using find_distinct_id [OF assms]
    by (auto simp: stockOf_def product_findUnique_id_def)
  finally show ?thesis .
qed


lemma attemptDecrement_cases:
  assumes "distinct (map p_id (products d))"
  shows "attemptDecrement a d =
     (if attemptProduct a \<in> set (map p_id (products d)) \<and>
         attemptQuantity a \<le> stockOf (attemptProduct a) d
      then Inr (snd (product_updateMany_decrement (attemptProduct a) (attemptQuantity a) d))
      else Inl (outOfStock a))"
  using decrement_count [OF assms, of "attemptProduct a" "attemptQuantity a"]
  by (auto simp: attemptDecrement_eq split: prod.splits)

lemma attemptDecrement_step:
  assumes "distinct (map p_id (products d))" and "attemptDecrement a d = Inr d'"
  shows "map p_id (products d') = map p_id (products d)"
    and "stockOf x d' =
           stockOf x d - (if attemptProduct a = x then attemptQuantity a else 0)"
    and "attemptProduct a = x \<Longrightarrow> attemptQuantity a \<le> stockOf x d"
proof -
  from assms have ok: "attemptProduct a \<in> set (map p_id (products d))"
      "attemptQuantity a \<le> stockOf (attemptProduct a) d"
    and d': "d' = snd (product_updateMany_decrement (attemptProduct a) (attemptQuantity a) d)"
    by (auto simp: attemptDecrement_cases split: if_splits)
  show "map p_id (products d') = map p_id (products d)"
    by (simp add: d' decrement_ids)
  show "stockOf x d' =
           stockOf x d - (if attemptProduct a = x then attemptQuantity a else 0)"
    using ok by (auto simp: d' decrement_stockOf)
  show "attemptProduct a = x \<Longrightarrow> attemptQuantity a \<le> stockOf x d"
    using ok by auto
qed

lemma runAttempts_accounting:
  assumes "distinct (map p_id (products d))"
  shows "map p_id (products (runAttempts attempts d)) = map p_id (products d) \<and>
         stockOf x (runAttempts attempts d) = stockOf x d - reservedQuantity x attempts d \<and>
         (0 \<le> stockOf x d \<longrightarrow> 0 \<le> stockOf x (runAttempts attempts d))"
  using assms
proof (induction attempts arbitrary: d)
  case Nil
  show ?case by simp
next
  case (Cons a rest)
  show ?case
  proof (cases "attemptDecrement a d")
    case (Inl err)
    with Cons.IH [OF Cons.prems] show ?thesis by auto
  next
    case (Inr d')
    note step = attemptDecrement_step [OF Cons.prems Inr]
    from step(1) Cons.prems have "distinct (map p_id (products d'))"
      by simp
    from Cons.IH [OF this] Inr step(1) step(2) [of x] step(3) [of x] show ?thesis
      by (auto split: if_splits)
  qed
qed

lemma decrement_stocked:
  "stocked d \<Longrightarrow> stocked (snd (product_updateMany_decrement i q d))"
  by (auto simp: stocked_def product_updateMany_decrement_def)

lemma reserveLines_stocked:
  "reserveLines lines d = Inr d' \<Longrightarrow> stocked d \<Longrightarrow> stocked d'"
proof (induction lines arbitrary: d)
  case Nil
  then show ?case by simp
next
  case (Cons line rest)
  from Cons.prems(1)
  have "reserveLines rest
          (snd (product_updateMany_decrement (ol_productId line) (ol_quantity line) d)) = Inr d'"
    by (simp split: prod.splits if_splits)
  then show ?case
    using decrement_stocked [OF Cons.prems(2)] by (rule Cons.IH)
qed

lemma reserveItems_stocked:
  "reserveItems cart d = Inr d' \<Longrightarrow> stocked d \<Longrightarrow> stocked d'"
proof (induction cart arbitrary: d)
  case Nil
  then show ?case by simp
next
  case (Cons x rest)
  obtain item product where x: "x = (item, product)"
    by (cases x)
  from Cons.prems(1) x
  have "reserveItems rest
          (snd (product_updateMany_decrement (ci_productId item) (ci_quantity item) d)) = Inr d'"
    by (simp split: prod.splits if_splits)
  then show ?case
    using decrement_stocked [OF Cons.prems(2)] by (rule Cons.IH)
qed

lemma claimTransition_stocked:
  assumes "claimTransition existingOrder d = (r, d')" and "stocked d"
  shows "stocked d'"
proof -
  let ?d1 = "snd (order_updateMany_status (claimWhere existingOrder) PLACED d)"
  have s1: "stocked ?d1"
    using assms(2) by (simp add: stocked_def order_updateMany_status_def)
  show ?thesis
  proof (cases "reserveLines (o_lines existingOrder) ?d1")
    case (Inl err)
    with assms(1) s1 show ?thesis
      by (auto simp: claimTransition_def split: prod.splits if_splits option.splits)
  next
    case (Inr d2)
    then have "stocked d2"
      using s1 by (rule reserveLines_stocked)
    then have "stocked (cartItem_deleteMany (\<lambda>c. ci_userId c = o_userId existingOrder) d2)"
      by (simp add: stocked_def cartItem_deleteMany_def)
    with Inr assms(1) s1 show ?thesis
      by (auto simp: claimTransition_def Let_def split: prod.splits if_splits option.splits)
  qed
qed

lemma finalizeStripeOrder_stocked:
  assumes "stocked d"
  shows "stocked (snd (finalizeStripeOrder sessionId userId d))"
proof (cases "finalizeRead sessionId userId d")
  case (Inl err)
  with assms show ?thesis
    by (simp add: finalizeStripeOrder_read_only)
next
  case (Inr out)
  show ?thesis
  proof (cases out)
    case (ReturnExisting ord)
    with Inr assms show ?thesis
      by (simp add: finalizeStripeOrder_read_only)
  next
    case (ClaimTransition ord)
    obtain r d' where c: "claimTransition ord d = (r, d')"
      by (cases "claimTransition ord d")
    from claimTransition_stocked [OF c assms] Inr ClaimTransition c assms show ?thesis
      by (cases r) (simp_all add: finalizeStripeOrder_def transaction_def)
  qed
qed

lemma checkout_stocked:
  assumes "stocked d"
  shows "stocked (snd (checkout codes userId parsed d))"
proof (cases "checkout codes userId parsed d")
  case (Pair r d')
  show ?thesis
  proof (cases r)
    case (Inl err)
    with Pair have "d' = d"
      by (auto simp: checkout_def transaction_def split: prod.splits sum.splits)
    with Pair assms show ?thesis by simp
  next
    case (Inr ord)
    with Pair obtain data d1 d2 where
      ri: "reserveItems (cartItem_findMany_product userId d) d = Inr d1"
      and cr: "createOrderWithRetry order_create codes data d1 = (Inr ord, d2)"
      and d': "d' = cartItem_deleteMany (\<lambda>c. ci_userId c = userId) d2"
      by (auto simp: checkout_def transaction_def Let_def
          split: if_splits option.splits sum.splits prod.splits)
    from ri assms have "stocked d1"
      by (rule reserveItems_stocked)
    with createOrderWithRetry_order_create [OF cr] d' have "stocked d'"
      by (simp add: stocked_def cartItem_deleteMany_def)
    with Pair show ?thesis by simp
  qed
qed


text \<open>
  C2. For a product in a store whose product ids are distinct and whose stock is not
  negative: a decrement attempt for it succeeds exactly when its quantity is at most the
  current stock; an attempt with a larger quantity fails, in the immediate checkout with
  status 400 and in the finalization with status 409, with the message "<name> is out of
  stock."; after any sequence of attempts the stock is not negative, it is the initial
  stock less the quantities reserved by the successful attempts, and these sum to at most
  the initial stock. The immediate checkout and the finalization as a whole keep every
  stock non-negative.
\<close>

theorem reservation_never_oversells:
  assumes "distinct (map p_id (products d))"
    and "product_findUnique_id productId d = Some p"
    and "0 \<le> p_stock p"
  shows "(attemptProduct a = productId \<longrightarrow>
            (\<exists>d'. attemptDecrement a d = Inr d') = (attemptQuantity a \<le> p_stock p)) \<and>
         (ci_productId item = productId \<longrightarrow> p_stock p < ci_quantity item \<longrightarrow>
            reserveItems ((item, product) # cart) d =
              Inl (HttpError 400 (p_name product @ '' is out of stock.''))) \<and>
         (ol_productId line = productId \<longrightarrow> p_stock p < ol_quantity line \<longrightarrow>
            reserveLines (line # lines) d =
              Inl (HttpError 409 (ol_productName line @ '' is out of stock.''))) \<and>
         0 \<le> stockOf productId (runAttempts attempts d) \<and>
         reservedQuantity productId attempts d \<le> p_stock p \<and>
         stockOf productId (runAttempts attempts d) =
           p_stock p - reservedQuantity productId attempts d \<and>
         (stocked d \<longrightarrow>
            stocked (snd (checkout codes userId parsed d)) \<and>
            stocked (snd (finalizeStripeOrder sessionId owner d)))"
proof -
  from assms(2) have st: "stockOf productId d = p_stock p"
    by (simp add: stockOf_def)
  from assms(2) have mem: "productId \<in> set (map p_id (products d))"
    by (auto simp: product_findUnique_id_def find_Some_iff)
  have one: "(\<exists>d'. attemptDecrement b d = Inr d') = (attemptQuantity b \<le> p_stock p)"
    if "attemptProduct b = productId" for b
    using that st mem by (simp add: attemptDecrement_cases [OF assms(1)])
  have two: "reserveItems ((item, product) # cart) d =
              Inl (HttpError 400 (p_name product @ '' is out of stock.''))"
    if "ci_productId item = productId" "p_stock p < ci_quantity item"
  proof -
    from that one [of "CheckoutDecrement item product"]
    have "attemptDecrement (CheckoutDecrement item product) d =
        Inl (outOfStock (CheckoutDecrement item product))"
      by (simp add: attemptDecrement_cases [OF assms(1)] st)
    then show ?thesis
      by (simp split: prod.splits if_splits)
  qed
  have three: "reserveLines (line # lines) d =
              Inl (HttpError 409 (ol_productName line @ '' is out of stock.''))"
    if "ol_productId line = productId" "p_stock p < ol_quantity line"
  proof -
    from that
    have "attemptDecrement (FinalizeDecrement line) d =
        Inl (outOfStock (FinalizeDecrement line))"
      by (simp add: attemptDecrement_cases [OF assms(1)] st)
    then show ?thesis
      by (simp split: prod.splits if_splits)
  qed
  note acc = runAttempts_accounting [OF assms(1), of attempts productId]
  from acc st assms(3) have four: "0 \<le> stockOf productId (runAttempts attempts d)"
    and six: "stockOf productId (runAttempts attempts d) =
           p_stock p - reservedQuantity productId attempts d"
    by simp_all
  from four six have five: "reservedQuantity productId attempts d \<le> p_stock p"
    by simp
  from one [of a] two three four five six checkout_stocked finalizeStripeOrder_stocked
  show ?thesis
    by blast
qed

theorem reservation_never_oversells_witness:
  "distinct (map p_id (products sampleDb)) \<and>
   product_findUnique_id 2 sampleDb = Some productB \<and>
   0 \<le> p_stock productB \<and>
   (\<exists>d'. attemptDecrement (CheckoutDecrement itemB productB) sampleDb = Inr d') \<and>
   reserveItems [(itemB\<lparr>ci_quantity := 2\<rparr>, productB)] sampleDb =
     Inl (HttpError 400 ''Test Checkout Race is out of stock.'') \<and>
   reserveLines [lineB\<lparr>ol_quantity := 2\<rparr>] sampleDb =
     Inl (HttpError 409 ''Test Checkout Race is out of stock.'') \<and>
   stockOf 2 (runAttempts sampleAttempts sampleDb) = 0 \<and>
   reservedQuantity 2 sampleAttempts sampleDb = 1 \<and>
   stocked sampleDb \<and>
   stocked (snd (checkout sampleCodes ''user-b'' sampleShipping sampleDb)) \<and>
   stocked (snd (finalizeStripeOrder ''cs_test_idempotent'' None sampleDb))"
proof -
  have h1: "distinct (map p_id (products sampleDb))"
    by (simp add: sampleDb_def productA_def productB_def)
  have h2: "product_findUnique_id 2 sampleDb = Some productB"
    by (simp add: product_findUnique_id_def sampleDb_def productA_def productB_def)
  have h3: "0 \<le> p_stock productB"
    by (simp add: productB_def)
  have h4: "stocked sampleDb"
    by (simp add: stocked_def sampleDb_def productA_def productB_def)
  have r: "reservedQuantity 2 sampleAttempts sampleDb = 1"
    by (simp add: sampleAttempts_def lineB_def itemB_def pendingOrder_def
        product_updateMany_decrement_def sampleDb_def productA_def productB_def)
  show ?thesis
    using
      reservation_never_oversells [OF h1 h2 h3, of "CheckoutDecrement itemB productB"
        "itemB\<lparr>ci_quantity := 2\<rparr>" productB "[]" "lineB\<lparr>ol_quantity := 2\<rparr>" "[]"
        sampleAttempts sampleCodes "''user-b''" sampleShipping "''cs_test_idempotent''" None]
      h1 h2 h3 h4 r
    by (simp add: itemB_def lineB_def productB_def)
qed

section \<open>Finalization: at most one reservation\<close>

lemma fresh_iff:
  "fresh sessionId invs d \<longleftrightarrow>
     (\<forall>ex. Claiming ex \<in> set invs \<longrightarrow>
        order_findUnique_stripeSessionId sessionId d = Some ex \<and> o_status ex = PENDING_PAYMENT)"
  unfolding fresh_def list_all_iff
  by (auto split: invocation.splits)

lemma settled_iff:
  "settled sessionId invs d \<longleftrightarrow>
     (\<forall>ex. Claiming ex \<in> set invs \<longrightarrow> (\<forall>ord \<in> set (orders d). \<not> claimWhere ex ord)) \<and>
     (\<forall>ord. order_findUnique_stripeSessionId sessionId d = Some ord \<longrightarrow>
        o_status ord \<noteq> PENDING_PAYMENT)"
  unfolding settled_def list_all_iff
  by (auto split: invocation.splits option.splits)

lemma decrement_orders:
  "orders (snd (product_updateMany_decrement i q d)) = orders d"
  by (simp add: product_updateMany_decrement_def)

lemma reserveLines_orders:
  "reserveLines lines d = Inr d' \<Longrightarrow> orders d' = orders d"
proof (induction lines arbitrary: d)
  case Nil
  then show ?case by simp
next
  case (Cons line rest)
  from Cons.prems
  have "reserveLines rest
          (snd (product_updateMany_decrement (ol_productId line) (ol_quantity line) d)) = Inr d'"
    by (simp split: prod.splits if_splits)
  from Cons.IH [OF this] show ?case
    by (simp add: decrement_orders)
qed

lemma claimTransition_no_match:
  assumes "\<forall>ord \<in> set (orders d). \<not> claimWhere ex ord"
  shows "claimTransition ex d =
           (case order_findUnique_id (o_id ex) d of
              None \<Rightarrow> Inl noOrderForSession
            | Some latest \<Rightarrow> Inr latest, d)"
proof -
  from assms have "filter (claimWhere ex) (orders d) = []"
    by (simp add: filter_empty_conv)
  moreover from assms
  have "map (\<lambda>ord. if claimWhere ex ord then ord\<lparr>o_status := PLACED\<rparr> else ord) (orders d) =
        orders d"
    by (intro map_idI) simp
  ultimately show ?thesis
    by (simp add: claimTransition_def order_updateMany_status_def split: option.splits)
qed

lemma claimTransition_committed:
  assumes "claimTransition ex d = (Inr ord, d')"
  shows "orders d' = map (claimed ex) (orders d)"
proof -
  let ?d1 = "d\<lparr>orders := map (claimed ex) (orders d)\<rparr>"
  have u: "order_updateMany_status (claimWhere ex) PLACED d =
      (length (filter (claimWhere ex) (orders d)), ?d1)"
    by (simp add: order_updateMany_status_def claimed_def)
  show ?thesis
  proof (cases "length (filter (claimWhere ex) (orders d)) = 0")
    case True
    with assms u show ?thesis
      by (auto simp: claimTransition_def split: option.splits)
  next
    case False
    with assms u obtain d2 where "reserveLines (o_lines ex) ?d1 = Inr d2"
      and "d' = cartItem_deleteMany (\<lambda>c. ci_userId c = o_userId ex) d2"
      by (auto simp: claimTransition_def Let_def split: option.splits sum.splits)
    then show ?thesis
      using reserveLines_orders [of "o_lines ex" ?d1 d2]
      by (simp add: cartItem_deleteMany_def)
  qed
qed

lemma claimed_settles:
  assumes "order_findUnique_stripeSessionId sessionId d = Some ex"
    and "o_status ex = PENDING_PAYMENT"
    and "orders d' = map (claimed ex) (orders d)"
  shows "(\<forall>ord \<in> set (orders d'). \<not> claimWhere ex ord) \<and>
         (\<forall>ord. order_findUnique_stripeSessionId sessionId d' = Some ord \<longrightarrow>
            o_status ord \<noteq> PENDING_PAYMENT)"
proof -
  have "find (\<lambda>ord. o_stripeSessionId ord = Some sessionId) (map (claimed ex) (orders d)) =
        map_option (claimed ex) (find (\<lambda>ord. o_stripeSessionId ord = Some sessionId) (orders d))"
    by (rule find_map_preserved) (simp add: claimed_def)
  with assms have "order_findUnique_stripeSessionId sessionId d' = Some (claimed ex ex)"
    by (simp add: order_findUnique_stripeSessionId_def)
  moreover have "o_status (claimed ex ex) \<noteq> PENDING_PAYMENT"
    using assms(2) by (simp add: claimed_def claimWhere_def)
  moreover have "\<forall>ord \<in> set (orders d'). \<not> claimWhere ex ord"
    using assms(3) by (auto simp: claimed_def claimWhere_def)
  ultimately show ?thesis
    by simp
qed


lemma Claiming_in_update:
  "Claiming ex \<in> set (invs[i := Returned r]) \<Longrightarrow> Claiming ex \<in> set invs"
  using set_update_subset_insert [of invs i "Returned r"] by auto

lemma settled_Returned:
  "settled sessionId invs d \<Longrightarrow> settled sessionId (invs[i := Returned r]) d"
  unfolding settled_iff using Claiming_in_update by blast

lemma fresh_Returned:
  "fresh sessionId invs d \<Longrightarrow> fresh sessionId (invs[i := Returned r]) d"
  unfolding fresh_iff using Claiming_in_update by blast

lemma fresh_Claiming:
  assumes "fresh sessionId invs d"
    and "order_findUnique_stripeSessionId sessionId d = Some ex"
    and "o_status ex = PENDING_PAYMENT"
  shows "fresh sessionId (invs[i := Claiming ex]) d"
  unfolding fresh_iff
proof (intro allI impI)
  fix ex'
  assume "Claiming ex' \<in> set (invs[i := Claiming ex])"
  then have "Claiming ex' = Claiming ex \<or> Claiming ex' \<in> set invs"
    using set_update_subset_insert [of invs i "Claiming ex"] by auto
  with assms show "order_findUnique_stripeSessionId sessionId d = Some ex' \<and>
      o_status ex' = PENDING_PAYMENT"
    by (auto simp: fresh_iff)
qed

lemma step_settled:
  assumes "settled sessionId invs d" and "i < length invs"
    and "stepInvocation sessionId (invs ! i) d = (inv', d')"
  shows "d' = d \<and> settled sessionId (invs[i := inv']) d"
proof (cases "invs ! i")
  case (Called userId)
  from assms(1) have "finalizeRead sessionId userId d \<noteq> Inr (ClaimTransition ex)" for ex
    by (auto simp: finalizeRead_ClaimTransition settled_iff)
  with assms(3) Called obtain r where "inv' = Returned r" "d' = d"
    by (auto split: sum.splits read_outcome.splits)
  with assms(1) show ?thesis
    by (simp add: settled_Returned)
next
  case (Claiming ex)
  with assms(2) have "Claiming ex \<in> set invs"
    by (metis nth_mem)
  with assms(1) have "\<forall>ord \<in> set (orders d). \<not> claimWhere ex ord"
    by (simp add: settled_iff)
  from claimTransition_no_match [OF this] assms(3) Claiming
  obtain r where "inv' = Returned r" "d' = d"
    by (auto simp: transaction_def split: option.splits)
  with assms(1) show ?thesis
    by (simp add: settled_Returned)
next
  case (Returned r)
  with assms(3) have "inv' = Returned r" "d' = d"
    by auto
  with assms(1) show ?thesis
    by (simp add: settled_Returned)
qed

lemma step_fresh:
  assumes "fresh sessionId invs d" and "i < length invs"
    and "stepInvocation sessionId (invs ! i) d = (inv', d')"
  shows "(d' = d \<and> fresh sessionId (invs[i := inv']) d) \<or>
         settled sessionId (invs[i := inv']) d'"
proof (cases "invs ! i")
  case (Called userId)
  show ?thesis
  proof (cases "finalizeRead sessionId userId d")
    case (Inl err)
    with assms(3) Called have "inv' = Returned (Inl err)" "d' = d"
      by auto
    with assms(1) show ?thesis
      by (simp add: fresh_Returned)
  next
    case (Inr out)
    show ?thesis
    proof (cases out)
      case (ReturnExisting ord)
      with assms(3) Called Inr have "inv' = Returned (Inr ord)" "d' = d"
        by auto
      with assms(1) show ?thesis
        by (simp add: fresh_Returned)
    next
      case (ClaimTransition ex)
      with assms(3) Called Inr have "inv' = Claiming ex" "d' = d"
        by auto
      moreover from Inr ClaimTransition
      have "order_findUnique_stripeSessionId sessionId d = Some ex"
        "o_status ex = PENDING_PAYMENT"
        by (simp_all add: finalizeRead_ClaimTransition)
      ultimately show ?thesis
        using assms(1) by (simp add: fresh_Claiming)
    qed
  qed
next
  case (Claiming ex)
  with assms(2) have "Claiming ex \<in> set invs"
    by (metis nth_mem)
  with assms(1) have ex: "order_findUnique_stripeSessionId sessionId d = Some ex"
    "o_status ex = PENDING_PAYMENT"
    by (simp_all add: fresh_iff)
  obtain r d1 where c: "claimTransition ex d = (r, d1)"
    by (cases "claimTransition ex d")
  show ?thesis
  proof (cases r)
    case (Inl err)
    with c assms(3) Claiming have "inv' = Returned (Inl err)" "d' = d"
      by (auto simp: transaction_def)
    with assms(1) show ?thesis
      by (simp add: fresh_Returned)
  next
    case (Inr ord)
    with c assms(3) Claiming have i': "inv' = Returned (Inr ord)" and d': "d' = d1"
      by (auto simp: transaction_def)
    from c Inr have "orders d1 = map (claimed ex) (orders d)"
      by (simp add: claimTransition_committed)
    note st = claimed_settles [OF ex this]
    have "settled sessionId (invs[i := Returned (Inr ord)]) d1"
      unfolding settled_iff
    proof (intro conjI allI impI)
      fix ex'
      assume "Claiming ex' \<in> set (invs[i := Returned (Inr ord)])"
      then have "Claiming ex' \<in> set invs"
        by (rule Claiming_in_update)
      with assms(1) ex have "ex' = ex"
        by (simp add: fresh_iff)
      with st show "\<forall>ord \<in> set (orders d1). \<not> claimWhere ex' ord"
        by simp
    next
      fix x
      assume "order_findUnique_stripeSessionId sessionId d1 = Some x"
      with st show "o_status x \<noteq> PENDING_PAYMENT"
        by simp
    qed
    with i' d' show ?thesis
      by simp
  qed
next
  case (Returned r)
  with assms(3) have "inv' = Returned r" "d' = d"
    by auto
  with assms(1) show ?thesis
    by (simp add: fresh_Returned)
qed

lemma stateChanges_settled:
  "settled sessionId invs d \<Longrightarrow> stateChanges sessionId schedule (invs, d) = 0"
proof (induction schedule arbitrary: invs d)
  case Nil
  show ?case by simp
next
  case (Cons i rest)
  show ?case
  proof (cases "i < length invs")
    case False
    with Cons show ?thesis by simp
  next
    case True
    obtain inv' d' where s: "stepInvocation sessionId (invs ! i) d = (inv', d')"
      by (cases "stepInvocation sessionId (invs ! i) d")
    from step_settled [OF Cons.prems True s] Cons.IH [of "invs[i := inv']" d] True s
    show ?thesis
      by simp
  qed
qed

lemma stateChanges_fresh:
  "fresh sessionId invs d \<Longrightarrow> stateChanges sessionId schedule (invs, d) \<le> 1"
proof (induction schedule arbitrary: invs d)
  case Nil
  show ?case by simp
next
  case (Cons i rest)
  show ?case
  proof (cases "i < length invs")
    case False
    with Cons show ?thesis by simp
  next
    case True
    obtain inv' d' where s: "stepInvocation sessionId (invs ! i) d = (inv', d')"
      by (cases "stepInvocation sessionId (invs ! i) d")
    from step_fresh [OF Cons.prems True s]
    show ?thesis
    proof
      assume "d' = d \<and> fresh sessionId (invs[i := inv']) d"
      with Cons.IH [of "invs[i := inv']" d] True s show ?thesis
        by simp
    next
      assume "settled sessionId (invs[i := inv']) d'"
      with stateChanges_settled [of sessionId "invs[i := inv']" d' rest] True s
      show ?thesis
        by simp
    qed
  qed
qed

lemma fresh_Called: "fresh sessionId (map Called userIds) d"
  by (auto simp: fresh_iff)


lemma claim_count_distinct:
  "distinct (map o_id os) \<Longrightarrow> length (filter (\<lambda>ord. o_id ord = i \<and> P ord) os) \<le> 1"
proof (induction os)
  case Nil
  show ?case by simp
next
  case (Cons x xs)
  show ?case
  proof (cases "o_id x = i")
    case True
    have "o_id y \<noteq> i" if "y \<in> set xs" for y
    proof
      assume "o_id y = i"
      with that True have "o_id x \<in> o_id ` set xs"
        by (metis imageI)
      with Cons.prems show False by simp
    qed
    then have "filter (\<lambda>ord. o_id ord = i \<and> P ord) xs = []"
      by (simp add: filter_empty_conv)
    then show ?thesis by simp
  next
    case False
    with Cons show ?thesis by simp
  qed
qed

lemma finalizeStripeOrder_steps:
  "stepInvocation sessionId (Called userId) d = (cur, d') \<Longrightarrow>
   d' = d \<and>
   stepInvocation sessionId cur d =
     (Returned (fst (finalizeStripeOrder sessionId userId d)),
      snd (finalizeStripeOrder sessionId userId d))"
  by (auto simp: finalizeStripeOrder_def transaction_def
      split: sum.splits read_outcome.splits prod.splits)

lemma step_change:
  assumes "snd (stepInvocation sessionId cur d) \<noteq> d"
  shows "\<exists>ex. cur = Claiming ex \<and>
           fst (order_updateMany_status (claimWhere ex) PLACED d) \<noteq> 0"
proof (cases cur)
  case (Called userId)
  with assms show ?thesis
    by (auto split: sum.splits read_outcome.splits)
next
  case (Claiming ex)
  have "fst (order_updateMany_status (claimWhere ex) PLACED d) \<noteq> 0"
  proof
    assume "fst (order_updateMany_status (claimWhere ex) PLACED d) = 0"
    then have "\<forall>ord \<in> set (orders d). \<not> claimWhere ex ord"
      by (simp add: order_updateMany_status_def filter_empty_conv)
    from claimTransition_no_match [OF this] assms Claiming show False
      by (auto simp: transaction_def split: option.splits)
  qed
  with Claiming show ?thesis by simp
next
  case (Returned r)
  with assms show ?thesis by simp
qed

text \<open>
  C1. From any store, along any schedule of any number of finalize invocations for one
  session identifier, at most one step changes the store, so the stock decrement for the
  order's lines and the clearing of the cart happen at most once; in particular a call
  that follows a call that changed the store changes nothing. A step that changes the
  store is the step of an invocation whose conditional update from PENDING_PAYMENT to
  PLACED matched (one row, when order ids are distinct). An invocation whose conditional
  update matches no row re-reads the order and returns it, leaving the store, and with it
  every product's stock, as it was.
\<close>

theorem finalize_reserves_at_most_once:
  "stateChanges sessionId schedule (map Called userIds, d) \<le> 1 \<and>
   (snd (finalizeStripeOrder sessionId userId d) \<noteq> d \<longrightarrow>
      snd (finalizeStripeOrder sessionId userId'
             (snd (finalizeStripeOrder sessionId userId d))) =
        snd (finalizeStripeOrder sessionId userId d)) \<and>
   (snd (stepInvocation sessionId cur d) \<noteq> d \<longrightarrow>
      (\<exists>won. cur = Claiming won \<and>
         fst (order_updateMany_status
                (\<lambda>ord. o_id ord = o_id won \<and> o_status ord = PENDING_PAYMENT) PLACED d) \<noteq> 0)) \<and>
   (distinct (map o_id (orders d)) \<longrightarrow>
      fst (order_updateMany_status
             (\<lambda>ord. o_id ord = o_id existingOrder \<and> o_status ord = PENDING_PAYMENT) PLACED d)
        \<le> 1) \<and>
   (fst (order_updateMany_status
           (\<lambda>ord. o_id ord = o_id existingOrder \<and> o_status ord = PENDING_PAYMENT) PLACED d) = 0
      \<longrightarrow>
      claimTransition existingOrder d =
        (case order_findUnique_id (o_id existingOrder) d of
           None \<Rightarrow> Inl (HttpError 404 ''No order found for this Stripe session.'')
         | Some latest \<Rightarrow> Inr latest, d))"
proof -
  have cw: "claimWhere ex = (\<lambda>ord. o_id ord = o_id ex \<and> o_status ord = PENDING_PAYMENT)" for ex
    by (auto simp: claimWhere_def)
  have one: "stateChanges sessionId schedule (map Called userIds, d) \<le> 1"
    by (rule stateChanges_fresh) (rule fresh_Called)
  have two: "snd (finalizeStripeOrder sessionId userId'
             (snd (finalizeStripeOrder sessionId userId d))) =
        snd (finalizeStripeOrder sessionId userId d)"
    if ch: "snd (finalizeStripeOrder sessionId userId d) \<noteq> d"
  proof -
    let ?d1 = "snd (finalizeStripeOrder sessionId userId d)"
    let ?r1 = "fst (finalizeStripeOrder sessionId userId d)"
    obtain inv1 where s1: "stepInvocation sessionId (Called userId) d = (inv1, d)"
      and s2: "stepInvocation sessionId inv1 d = (Returned ?r1, ?d1)"
      using finalizeStripeOrder_steps [of sessionId userId d]
      by (cases "stepInvocation sessionId (Called userId) d") auto
    obtain inv2 where s3: "stepInvocation sessionId (Called userId') ?d1 = (inv2, ?d1)"
      and s4: "stepInvocation sessionId inv2 ?d1 =
        (Returned (fst (finalizeStripeOrder sessionId userId' ?d1)),
         snd (finalizeStripeOrder sessionId userId' ?d1))"
      using finalizeStripeOrder_steps [of sessionId userId' ?d1]
      by (cases "stepInvocation sessionId (Called userId') ?d1") auto
    have "stateChanges sessionId [0, 0, 1, 1] (map Called [userId, userId'], d) \<le> 1"
      by (rule stateChanges_fresh) (rule fresh_Called)
    with s1 s2 s3 s4 ch show ?thesis
      by (simp split: if_splits)
  qed
  have three: "\<exists>won. cur = Claiming won \<and>
         fst (order_updateMany_status
                (\<lambda>ord. o_id ord = o_id won \<and> o_status ord = PENDING_PAYMENT) PLACED d) \<noteq> 0"
    if "snd (stepInvocation sessionId cur d) \<noteq> d"
    using step_change [OF that] by (simp add: cw)
  have four: "fst (order_updateMany_status
             (\<lambda>ord. o_id ord = o_id existingOrder \<and> o_status ord = PENDING_PAYMENT) PLACED d)
        \<le> 1"
    if "distinct (map o_id (orders d))"
    using claim_count_distinct [OF that] by (simp add: order_updateMany_status_def)
  have five: "claimTransition existingOrder d =
        (case order_findUnique_id (o_id existingOrder) d of
           None \<Rightarrow> Inl (HttpError 404 ''No order found for this Stripe session.'')
         | Some latest \<Rightarrow> Inr latest, d)"
    if "fst (order_updateMany_status
           (\<lambda>ord. o_id ord = o_id existingOrder \<and> o_status ord = PENDING_PAYMENT) PLACED d) = 0"
  proof -
    from that have "\<forall>ord \<in> set (orders d). \<not> claimWhere existingOrder ord"
      by (simp add: order_updateMany_status_def filter_empty_conv cw)
    from claimTransition_no_match [OF this] show ?thesis
      by (auto simp: noOrderForSession_def split: option.splits)
  qed
  from one two three four five show ?thesis
    by blast
qed


lemma sample_claim:
  "transaction (claimTransition pendingOrder) sampleDb =
     (Inr (pendingOrder\<lparr>o_status := PLACED\<rparr>), finalizedDb)"
  by (simp add: transaction_def claimTransition_def claimWhere_def
      order_updateMany_status_def order_findUnique_id_def product_updateMany_decrement_def
      cartItem_deleteMany_def sampleDb_def finalizedDb_def pendingOrder_def placedOrder_def
      productA_def productB_def)

lemma sample_reclaim:
  "transaction (claimTransition pendingOrder) finalizedDb =
     (Inr (pendingOrder\<lparr>o_status := PLACED\<rparr>), finalizedDb)"
  by (simp add: transaction_def claimTransition_def claimWhere_def
      order_updateMany_status_def order_findUnique_id_def finalizedDb_def pendingOrder_def
      placedOrder_def)

lemma sample_read:
  "finalizeRead ''cs_test_idempotent'' (Some ''user-a'') sampleDb =
     Inr (ClaimTransition pendingOrder)"
  "finalizeRead ''cs_test_idempotent'' None sampleDb = Inr (ClaimTransition pendingOrder)"
  "finalizeRead ''cs_test_idempotent'' None finalizedDb =
     Inr (ReturnExisting (pendingOrder\<lparr>o_status := PLACED\<rparr>))"
  by (simp_all add: finalizeRead_def order_findUnique_stripeSessionId_def truthy_def
      sampleDb_def finalizedDb_def pendingOrder_def placedOrder_def)

lemma sample_changed: "finalizedDb \<noteq> sampleDb"
  by (simp add: finalizedDb_def sampleDb_def productA_def)

theorem finalize_reserves_at_most_once_witness:
  "stateChanges ''cs_test_idempotent'' [0, 1, 0, 1]
     (map Called [Some ''user-a'', None], sampleDb) = 1 \<and>
   runSchedule ''cs_test_idempotent'' [0, 1, 0, 1]
     (map Called [Some ''user-a'', None], sampleDb) =
     ([Returned (Inr (pendingOrder\<lparr>o_status := PLACED\<rparr>)),
       Returned (Inr (pendingOrder\<lparr>o_status := PLACED\<rparr>))], finalizedDb) \<and>
   snd (finalizeStripeOrder ''cs_test_idempotent'' (Some ''user-a'') sampleDb) = finalizedDb \<and>
   finalizedDb \<noteq> sampleDb \<and>
   snd (finalizeStripeOrder ''cs_test_idempotent'' None finalizedDb) = finalizedDb \<and>
   snd (stepInvocation ''cs_test_idempotent'' (Claiming pendingOrder) sampleDb) \<noteq> sampleDb \<and>
   distinct (map o_id (orders sampleDb)) \<and>
   fst (order_updateMany_status
          (\<lambda>ord. o_id ord = o_id pendingOrder \<and> o_status ord = PENDING_PAYMENT) PLACED
          sampleDb) = 1 \<and>
   fst (order_updateMany_status
          (\<lambda>ord. o_id ord = o_id pendingOrder \<and> o_status ord = PENDING_PAYMENT) PLACED
          finalizedDb) = 0 \<and>
   claimTransition pendingOrder finalizedDb =
     (Inr (pendingOrder\<lparr>o_status := PLACED\<rparr>), finalizedDb)"
proof -
  have c: "stateChanges ''cs_test_idempotent'' [0, 1, 0, 1]
     (map Called [Some ''user-a'', None], sampleDb) = 1"
    by (simp add: sample_read sample_claim sample_reclaim sample_changed)
  have r: "runSchedule ''cs_test_idempotent'' [0, 1, 0, 1]
     (map Called [Some ''user-a'', None], sampleDb) =
     ([Returned (Inr (pendingOrder\<lparr>o_status := PLACED\<rparr>)),
       Returned (Inr (pendingOrder\<lparr>o_status := PLACED\<rparr>))], finalizedDb)"
    by (simp add: sample_read sample_claim sample_reclaim)
  have f1: "snd (finalizeStripeOrder ''cs_test_idempotent'' (Some ''user-a'') sampleDb) =
      finalizedDb"
    using sample_claim by (simp add: finalizeStripeOrder_def sample_read transaction_def)
  have st: "snd (stepInvocation ''cs_test_idempotent'' (Claiming pendingOrder) sampleDb) \<noteq>
      sampleDb"
    by (simp add: sample_claim sample_changed)
  have di: "distinct (map o_id (orders sampleDb))"
    by (simp add: sampleDb_def pendingOrder_def placedOrder_def)
  have n1: "fst (order_updateMany_status
          (\<lambda>ord. o_id ord = o_id pendingOrder \<and> o_status ord = PENDING_PAYMENT) PLACED
          sampleDb) = 1"
    by (simp add: order_updateMany_status_def sampleDb_def pendingOrder_def placedOrder_def)
  have n0: "fst (order_updateMany_status
          (\<lambda>ord. o_id ord = o_id pendingOrder \<and> o_status ord = PENDING_PAYMENT) PLACED
          finalizedDb) = 0"
    by (simp add: order_updateMany_status_def finalizedDb_def pendingOrder_def placedOrder_def)
  have re: "order_findUnique_id (o_id pendingOrder) finalizedDb =
      Some (pendingOrder\<lparr>o_status := PLACED\<rparr>)"
    by (simp add: order_findUnique_id_def finalizedDb_def)
  show ?thesis
    using
      finalize_reserves_at_most_once [of "''cs_test_idempotent''" "[0, 1, 0, 1]"
        "[Some ''user-a'', None]" sampleDb "Some ''user-a''" None "Claiming pendingOrder"
        pendingOrder]
      finalize_reserves_at_most_once [of "''cs_test_idempotent''" "[]" "[]" finalizedDb None
        None "Returned (Inl noOrderForSession)" pendingOrder]
      c r f1 st di n1 n0 re sample_changed
    by simp
qed

end
